theory Spec2Isabelle
  imports Main
begin

section \<open>Constants of shell.h\<close>

definition MAX_ARGS :: nat where
  "MAX_ARGS = 512"

definition MAX_PATH_LENGTH :: nat where
  "MAX_PATH_LENGTH = 4096"

definition MAX_ALIASES :: nat where
  "MAX_ALIASES = 100"

definition EXIT_SUCCESS :: int where
  "EXIT_SUCCESS = 0"

definition EXIT_FAILURE :: int where
  "EXIT_FAILURE = 1"

definition EXIT_NOT_FOUND :: int where
  "EXIT_NOT_FOUND = 127"

section \<open>The C library's strtok\<close>

text \<open>
  A C string is the list of its bytes before the terminating NUL. One call of
  \<open>strtok\<close> skips the leading delimiter bytes; at the end of the string it returns
  NULL (\<open>None\<close>); otherwise the token runs up to the next delimiter, which is
  overwritten by NUL, and the hidden save pointer is left behind it. The pair returned is
  the token and the text at the save pointer, which the next call
  \<open>strtok(NULL, delims)\<close> scans.
\<close>

definition strtok :: "string \<Rightarrow> string \<Rightarrow> (string \<times> string) option" where
  "strtok delims s =
     (let s' = dropWhile (\<lambda>c. c \<in> set delims) s
      in if s' = [] then None
         else Some (takeWhile (\<lambda>c. c \<notin> set delims) s',
                    drop 1 (dropWhile (\<lambda>c. c \<notin> set delims) s')))"

lemma strtok_shorter:
  assumes "strtok delims s = Some (token, rest)"
  shows "length rest < length s"
proof -
  let ?s = "dropWhile (\<lambda>c. c \<in> set delims) s"
  from assms have ne: "?s \<noteq> []"
    and r: "rest = drop 1 (dropWhile (\<lambda>c. c \<notin> set delims) ?s)"
    by (auto simp: strtok_def Let_def split: if_splits)
  from ne obtain a list where s: "?s = a # list"
    by (cases ?s) auto
  have "hd ?s \<notin> set delims"
    using ne hd_dropWhile by metis
  with s have a: "a \<notin> set delims"
    by simp
  have "length (dropWhile (\<lambda>c. c \<notin> set delims) list) \<le> length list"
    by (rule length_dropWhile_le)
  with r s a have "length rest < length ?s"
    by simp
  moreover have "length ?s \<le> length s"
    by (rule length_dropWhile_le)
  ultimately show ?thesis
    by simp
qed

section \<open>parse_command (shell.c)\<close>

text \<open>The delimiter set \<open>" \t\n\r"\<close> of \<open>parse_command\<close>.\<close>

definition parse_delims :: string where
  "parse_delims = [CHR '' '', CHR 0x09, CHR 0x0A, CHR 0x0D]"

text \<open>
  The \<open>while (token && *argc < MAX_ARGS - 1)\<close> loop: \<open>rest\<close> is the text at
  strtok's save pointer, \<open>args\<close> the entries \<open>args[0 .. *argc - 1]\<close> stored so far.
  The returned list is the argument vector up to its terminating NULL entry
  (\<open>args[*argc] = NULL\<close>). Allocation failure of \<open>malloc\<close>/\<open>strdup\<close> is not
  modelled.
\<close>

function parse_loop :: "string \<Rightarrow> string list \<Rightarrow> string list" where
  "parse_loop rest args =
     (case strtok parse_delims rest of
        None \<Rightarrow> args
      | Some (token, rest') \<Rightarrow>
          if length args < MAX_ARGS - 1 then parse_loop rest' (args @ [token]) else args)"
  by pat_completeness auto
termination
  by (relation "measure (\<lambda>(rest, args). length rest)") (auto dest: strtok_shorter)

declare parse_loop.simps [simp del]

definition parse_command :: "string \<Rightarrow> string list" where
  "parse_command command = parse_loop command []"

section \<open>Data of shell.h and the globals of main.c\<close>

text \<open>
  The fixed arrays \<open>config.aliases[MAX_ALIASES]\<close> and \<open>config.jobs[MAX_ARGS]\<close> are
  used only through their first \<open>alias_count\<close> and \<open>job_count\<close> slots. The model keeps
  those slots as lists, so \<open>alias_count\<close> is \<open>length (aliases cfg)\<close> and
  \<open>job_count\<close> is \<open>length (jobs cfg)\<close>. Of \<open>Job\<close>, the fields \<open>start_time\<close>
  and \<open>cwd\<close> are never written or read by the code and are left out. Pointer arguments
  are modelled as strings, so the NULL guards at the head of the functions, which return
  without any effect, have no counterpart.
\<close>

record Alias =
  alias_name :: string
  alias_value :: string

record Job =
  job_pid :: int
  job_command :: string
  job_status :: int
  job_running :: int

record Config =
  aliases :: "Alias list"
  jobs :: "Job list"

text \<open>
  What the operating system knows about a process id of a child of the shell: no such
  child (never forked, or already waited for), a child still running, or a terminated
  child whose wait status has not been collected yet.
\<close>

datatype child = NoChild | ChildRunning | ChildTerminated int

text \<open>
  The state the shell's functions read and write: the globals \<open>current_dir\<close>,
  \<open>running\<close> and \<open>config\<close>, the readline history, what has been written to standard
  output and standard error (one entry per message), the working directory of the process
  as the operating system has it, the table of child processes, and the \<open>execv\<close>
  calls made by forked children (program path and argument vector).
\<close>

record shell =
  current_dir :: string
  running :: int
  config :: Config
  history :: "string list"
  out :: "string list"
  err :: "string list"
  os_cwd :: string
  children :: "int \<Rightarrow> child"
  execv_calls :: "(string \<times> string list) list"

text \<open>
  What a call of \<open>fork\<close> followed by \<open>execv\<close> in the child leads to: \<open>fork\<close> fails
  with an error text; \<open>execv\<close> fails in the child with an error text; or the program
  runs, and the list gives the wait statuses that the successive blocking
  \<open>waitpid(pid, &status, WUNTRACED)\<close> calls of the parent report (when the list is
  used up, the next \<open>waitpid\<close> does not return).
\<close>

datatype spawn = ForkFails string | ExecFails string | Runs "int list"

text \<open>
  The system around the shell during one call: the environment variables \<open>PATH\<close> and
  \<open>HOME\<close> (\<open>None\<close> when unset), \<open>access(path, X_OK) == 0\<close> seen from a working
  directory, \<open>chdir\<close> from a working directory to a path (\<open>Inl\<close> the \<open>strerror\<close>
  text, \<open>Inr\<close> the new working directory), the failures of \<open>getcwd\<close> other than a
  buffer that is too small, the buffer contents \<open>getcwd\<close> leaves behind when it fails
  (unspecified by POSIX), and the behaviour of spawned programs.
\<close>

record os_env =
  env_PATH :: "string option"
  env_HOME :: "string option"
  access_X_OK :: "string \<Rightarrow> string \<Rightarrow> bool"
  sys_chdir :: "string \<Rightarrow> string \<Rightarrow> string + string"
  getcwd_error :: "string \<Rightarrow> string option"
  getcwd_junk :: string
  sys_spawn :: "string \<Rightarrow> string list \<Rightarrow> spawn"

text \<open>
  Runs of the code that leave defined behaviour or never return: a write behind the end
  of a heap buffer, a foreground wait that blocks for ever, and a \<open>waitpid\<close> on a
  process id that is not positive (it addresses a process group, which the child table
  does not describe).
\<close>

datatype fault = HeapOverflow | WaitsForever | ProcessGroupWait

section \<open>Messages\<close>

definition COLOR_RESET :: string where
  "COLOR_RESET = [CHR 0x01, CHR 0x1B] @ ''[0m'' @ [CHR 0x02]"

definition COLOR_RED :: string where
  "COLOR_RED = [CHR 0x01, CHR 0x1B] @ ''[31m'' @ [CHR 0x02]"

text \<open>\<open>print_error\<close>: one message on standard error, with the format already expanded.\<close>

definition print_error :: "string \<Rightarrow> shell \<Rightarrow> shell" where
  "print_error msg s =
     s\<lparr>err := err s @ [COLOR_RED @ ''Error:'' @ COLOR_RESET @ '' '' @ msg @ [CHR 0x0A]]\<rparr>"

definition printf :: "string \<Rightarrow> shell \<Rightarrow> shell" where
  "printf text s = s\<lparr>out := out s @ [text]\<rparr>"

text \<open>The conversion \<open>%d\<close> of a number that is not negative, and \<open>%5d\<close>.\<close>

fun string_of_nat :: "nat \<Rightarrow> string" where
  "string_of_nat n =
     (if n < 10 then [char_of (48 + n)]
      else string_of_nat (n div 10) @ [char_of (48 + n mod 10)])"

declare string_of_nat.simps [simp del]

definition pad5 :: "string \<Rightarrow> string" where
  "pad5 t = replicate (5 - length t) CHR '' '' @ t"

section \<open>add_to_history (shell.c)\<close>

definition add_to_history :: "string \<Rightarrow> shell \<Rightarrow> shell" where
  "add_to_history command s =
     (if command \<noteq> [] then s\<lparr>history := history s @ [command]\<rparr> else s)"

section \<open>The alias table (shell.c)\<close>

text \<open>
  The search loop of \<open>add_alias\<close>: the first entry whose name equals \<open>name\<close> gets the
  new value; \<open>None\<close> when the loop ends without a match.
\<close>

primrec replace_alias :: "string \<Rightarrow> string \<Rightarrow> Alias list \<Rightarrow> Alias list option" where
  "replace_alias name val [] = None"
| "replace_alias name val (a # as) =
     (if alias_name a = name then Some (a\<lparr>alias_value := val\<rparr> # as)
      else map_option ((#) a) (replace_alias name val as))"

definition add_alias :: "string \<Rightarrow> string \<Rightarrow> shell \<Rightarrow> shell" where
  "add_alias name val s =
     (if length (aliases (config s)) \<ge> MAX_ALIASES
      then print_error ''Maximum number of aliases reached'' s
      else (case replace_alias name val (aliases (config s)) of
              Some as \<Rightarrow> s\<lparr>config := (config s)\<lparr>aliases := as\<rparr>\<rparr>
            | None \<Rightarrow>
                s\<lparr>config := (config s)\<lparr>aliases :=
                     aliases (config s) @ [\<lparr>alias_name = name, alias_value = val\<rparr>]\<rparr>\<rparr>))"

primrec get_alias_loop :: "string \<Rightarrow> Alias list \<Rightarrow> string option" where
  "get_alias_loop name [] = None"
| "get_alias_loop name (a # as) =
     (if alias_name a = name then Some (alias_value a) else get_alias_loop name as)"

definition get_alias :: "string \<Rightarrow> shell \<Rightarrow> string option" where
  "get_alias name s = get_alias_loop name (aliases (config s))"

primrec remove_alias_loop :: "string \<Rightarrow> Alias list \<Rightarrow> Alias list" where
  "remove_alias_loop name [] = []"
| "remove_alias_loop name (a # as) =
     (if alias_name a = name then as else a # remove_alias_loop name as)"

definition remove_alias :: "string \<Rightarrow> shell \<Rightarrow> shell" where
  "remove_alias name s =
     s\<lparr>config := (config s)\<lparr>aliases := remove_alias_loop name (aliases (config s))\<rparr>\<rparr>"

section \<open>The job table (shell.c)\<close>

definition add_job :: "int \<Rightarrow> string \<Rightarrow> shell \<Rightarrow> shell" where
  "add_job pid command s =
     (if length (jobs (config s)) \<ge> MAX_ARGS
      then print_error ''Maximum number of background jobs reached'' s
      else s\<lparr>config := (config s)\<lparr>jobs := jobs (config s) @
             [\<lparr>job_pid = pid, job_command = command, job_status = 0, job_running = 1\<rparr>]\<rparr>\<rparr>)"

text \<open>
  The wait status macros, as the C library defines them on the integer status:
  \<open>WEXITSTATUS(s)\<close> is \<open>(s & 0xff00) >> 8\<close>, \<open>WIFEXITED(s)\<close> is
  \<open>(s & 0x7f) == 0\<close>, and \<open>WIFSIGNALED(s)\<close> holds when \<open>s & 0x7f\<close> is neither
  \<open>0\<close> nor \<open>0x7f\<close>.
\<close>

definition WEXITSTATUS :: "int \<Rightarrow> int" where
  "WEXITSTATUS st = (st div 256) mod 256"

definition WIFEXITED :: "int \<Rightarrow> bool" where
  "WIFEXITED st = (st mod 128 = 0)"

definition WIFSIGNALED :: "int \<Rightarrow> bool" where
  "WIFSIGNALED st = (st mod 128 \<noteq> 0 \<and> st mod 128 \<noteq> 127)"

text \<open>
  \<open>waitpid(pid, &status, WNOHANG)\<close> for a positive \<open>pid\<close>: it returns \<open>0\<close> for a
  child that is still running (\<open>NotYet\<close>); for a terminated child it returns \<open>pid\<close>,
  stores the wait status and releases the child (\<open>Reaped\<close>); without such a child it
  returns \<open>-1\<close> (\<open>NoSuchChild\<close>). The call never blocks.
\<close>

datatype wait_result = NotYet | Reaped int | NoSuchChild

definition waitpid_nohang ::
  "(int \<Rightarrow> child) \<Rightarrow> int \<Rightarrow> (wait_result \<times> (int \<Rightarrow> child)) option" where
  "waitpid_nohang ch pid =
     (if pid \<le> 0 then None
      else (case ch pid of
              ChildRunning \<Rightarrow> Some (NotYet, ch)
            | ChildTerminated st \<Rightarrow> Some (Reaped st, ch(pid := NoChild))
            | NoChild \<Rightarrow> Some (NoSuchChild, ch)))"

text \<open>
  The body of the loop of \<open>update_jobs\<close> for slot \<open>i\<close>. With a positive process id,
  the result \<open>-1\<close> of \<open>waitpid\<close> equals neither \<open>0\<close> nor the process id, so the slot
  stays as it is.
\<close>

definition update_job :: "nat \<Rightarrow> shell \<Rightarrow> fault + shell" where
  "update_job i s =
     (let j = jobs (config s) ! i
      in if job_running j = 0 then Inr s
         else (case waitpid_nohang (children s) (job_pid j) of
                 None \<Rightarrow> Inl ProcessGroupWait
               | Some (NotYet, ch) \<Rightarrow> Inr (s\<lparr>children := ch\<rparr>)
               | Some (NoSuchChild, ch) \<Rightarrow> Inr (s\<lparr>children := ch\<rparr>)
               | Some (Reaped st, ch) \<Rightarrow>
                   Inr (printf (''['' @ string_of_nat (i + 1) @ ''] '' @ job_command j @ '' Done (''
                                 @ (if WEXITSTATUS st = 0 then ''success'' else ''failed'')
                                 @ '')'' @ [CHR 0x0A])
                         (s\<lparr>children := ch,
                            config := (config s)\<lparr>jobs := (jobs (config s))
                              [i := j\<lparr>job_running := 0, job_status := WEXITSTATUS st\<rparr>]\<rparr>\<rparr>))))"

lemma update_job_count:
  assumes "update_job i s = Inr s'"
  shows "length (jobs (config s')) = length (jobs (config s))"
  using assms
  by (auto simp: update_job_def Let_def printf_def
      split: if_splits option.splits wait_result.splits)

function update_jobs_loop :: "nat \<Rightarrow> shell \<Rightarrow> fault + shell" where
  "update_jobs_loop i s =
     (if i < length (jobs (config s))
      then (case update_job i s of
              Inl f \<Rightarrow> Inl f
            | Inr s' \<Rightarrow> update_jobs_loop (i + 1) s')
      else Inr s)"
  by pat_completeness auto
termination
  by (relation "measure (\<lambda>(i, s). length (jobs (config s)) - i)")
    (auto dest: update_job_count)

declare update_jobs_loop.simps [simp del]

definition update_jobs :: "shell \<Rightarrow> fault + shell" where
  "update_jobs s = update_jobs_loop 0 s"

section \<open>find_command (main.c)\<close>

definition standard_paths :: "string list" where
  "standard_paths =
     [''/bin'', ''/sbin'', ''/usr/bin'', ''/usr/sbin'', ''/usr/local/bin'', ''~/.local/bin'']"

text \<open>The first loop over \<open>standard_paths\<close>: the buffer size is counted from the entries as written.\<close>

primrec total_len_loop :: "nat \<Rightarrow> string list \<Rightarrow> nat" where
  "total_len_loop total_len [] = total_len"
| "total_len_loop total_len (sp # sps) = total_len_loop (total_len + (length sp + 1)) sps"

text \<open>
  The second loop: \<open>strcat\<close> appends a colon and the entry, with a leading \<open>~\<close>
  replaced by \<open>HOME\<close> when that variable is set.
\<close>

definition expand_entry :: "os_env \<Rightarrow> string \<Rightarrow> string" where
  "expand_entry e sp =
     (if sp \<noteq> [] \<and> hd sp = CHR ''~''
      then (case env_HOME e of Some home \<Rightarrow> home @ tl sp | None \<Rightarrow> sp)
      else sp)"

primrec strcat_loop :: "os_env \<Rightarrow> string \<Rightarrow> string list \<Rightarrow> string" where
  "strcat_loop e new_path [] = new_path"
| "strcat_loop e new_path (sp # sps) = strcat_loop e (new_path @ '':'' @ expand_entry e sp) sps"

text \<open>
  The search loop: \<open>snprintf\<close> into \<open>full_path[MAX_PATH_LENGTH]\<close> cuts the candidate
  after \<open>MAX_PATH_LENGTH - 1\<close> bytes.
\<close>

definition full_path :: "string \<Rightarrow> string \<Rightarrow> string" where
  "full_path dir cmd = take (MAX_PATH_LENGTH - 1) (dir @ ''/'' @ cmd)"

function search_loop :: "os_env \<Rightarrow> string \<Rightarrow> string \<Rightarrow> string \<Rightarrow> string option" where
  "search_loop e cwd cmd rest =
     (case strtok '':'' rest of
        None \<Rightarrow> None
      | Some (dir, rest') \<Rightarrow>
          if access_X_OK e cwd (full_path dir cmd) then Some (full_path dir cmd)
          else search_loop e cwd cmd rest')"
  by pat_completeness auto
termination
  by (relation "measure (\<lambda>(e, cwd, cmd, rest). length rest)") (auto dest: strtok_shorter)

declare search_loop.simps [simp del]

text \<open>
  \<open>new_path\<close> is allocated with \<open>total_len + 1\<close> bytes. The \<open>strcpy\<close> and
  \<open>strcat\<close> calls only ever lengthen the string in it, so they stay inside the buffer
  exactly when the final string has at most \<open>total_len\<close> bytes; otherwise a byte is
  written behind the allocation and the behaviour of the program is undefined.
\<close>

definition find_command :: "os_env \<Rightarrow> string \<Rightarrow> string \<Rightarrow> fault + string option" where
  "find_command e cwd cmd =
     (if CHR ''/'' \<in> set cmd
      then (if access_X_OK e cwd cmd then Inr (Some cmd) else Inr None)
      else (let path = (case env_PATH e of None \<Rightarrow> ''/bin:/usr/bin'' | Some path_env \<Rightarrow> path_env);
                total_len = total_len_loop (length path) standard_paths;
                new_path = strcat_loop e path standard_paths
            in if length new_path > total_len then Inl HeapOverflow
               else Inr (search_loop e cwd cmd new_path)))"

section \<open>Built-in commands (main.c)\<close>

text \<open>\<open>args[1]\<close> of a NULL-terminated argument vector whose \<open>args[0]\<close> is present.\<close>

fun arg1 :: "string list \<Rightarrow> string option" where
  "arg1 (a0 # a1 # rest) = Some a1"
| "arg1 args = None"

text \<open>
  \<open>getcwd(buf, bufsize)\<close> in working directory \<open>cwd\<close>: it fails when the path and its
  terminating NUL do not fit into \<open>bufsize\<close> bytes, or for a reason the system gives.
\<close>

definition sys_getcwd :: "os_env \<Rightarrow> string \<Rightarrow> nat \<Rightarrow> string + string" where
  "sys_getcwd e cwd bufsize =
     (case getcwd_error e cwd of
        Some errstr \<Rightarrow> Inl errstr
      | None \<Rightarrow>
          if length cwd + 1 > bufsize then Inl ''Numerical result out of range'' else Inr cwd)"

text \<open>
  The directory \<open>cmd_cd\<close> hands to \<open>chdir\<close>: \<open>HOME\<close> without an argument (\<open>Inl\<close>
  the diagnostic when the variable is unset), else \<open>args[1]\<close>.
\<close>

definition cd_target :: "os_env \<Rightarrow> string list \<Rightarrow> string + string" where
  "cd_target e args =
     (case arg1 args of
        None \<Rightarrow>
          (case env_HOME e of
             None \<Rightarrow> Inl ''HOME environment variable not set''
           | Some home \<Rightarrow> Inr home)
      | Some a1 \<Rightarrow> Inr a1)"

definition cmd_cd :: "os_env \<Rightarrow> shell \<Rightarrow> string list \<Rightarrow> int \<times> shell" where
  "cmd_cd e s args =
     (case cd_target e args of
        Inl msg \<Rightarrow> (EXIT_FAILURE, print_error msg s)
      | Inr target \<Rightarrow>
          (case sys_chdir e (os_cwd s) target of
             Inl errstr \<Rightarrow>
               (EXIT_FAILURE, print_error (''cd: '' @ target @ '': '' @ errstr) s)
           | Inr dir \<Rightarrow>
               (case sys_getcwd e dir MAX_PATH_LENGTH of
                  Inl errstr \<Rightarrow>
                    (EXIT_FAILURE,
                     print_error (''getcwd: '' @ errstr)
                       (s\<lparr>os_cwd := dir, current_dir := getcwd_junk e\<rparr>))
                | Inr buf \<Rightarrow> (EXIT_SUCCESS, s\<lparr>os_cwd := dir, current_dir := buf\<rparr>))))"

definition cmd_pwd :: "shell \<Rightarrow> string list \<Rightarrow> int \<times> shell" where
  "cmd_pwd s args = (EXIT_SUCCESS, printf (current_dir s @ [CHR 0x0A]) s)"

definition cmd_exit :: "shell \<Rightarrow> string list \<Rightarrow> int \<times> shell" where
  "cmd_exit s args = (EXIT_SUCCESS, s\<lparr>running := 0\<rparr>)"

definition cmd_clear :: "shell \<Rightarrow> string list \<Rightarrow> int \<times> shell" where
  "cmd_clear s args = (EXIT_SUCCESS, printf ([CHR 0x1B] @ ''[H'' @ [CHR 0x1B] @ ''[J'') s)"

definition help_head :: "string list" where
  "help_head =
     [[CHR 0x0A] @ ''Available built-in commands:'' @ [CHR 0x0A],
      ''  cd [dir]     - Change directory'' @ [CHR 0x0A],
      ''  pwd          - Print working directory'' @ [CHR 0x0A],
      ''  clear        - Clear screen'' @ [CHR 0x0A],
      ''  history      - Show command history'' @ [CHR 0x0A],
      ''  alias        - Show/set aliases'' @ [CHR 0x0A],
      ''  help         - Show this help'' @ [CHR 0x0A],
      ''  exit         - Exit shell'' @ [CHR 0x0A],
      [CHR 0x0A] @ ''External commands are searched in:'' @ [CHR 0x0A]]"

definition cmd_help :: "shell \<Rightarrow> string list \<Rightarrow> int \<times> shell" where
  "cmd_help s args =
     (EXIT_SUCCESS,
      s\<lparr>out := out s @ help_head
             @ map (\<lambda>sp. ''  '' @ sp @ [CHR 0x0A]) standard_paths
             @ [''  And any directory in $PATH'' @ [CHR 0x0A]]\<rparr>)"

definition cmd_history :: "shell \<Rightarrow> string list \<Rightarrow> int \<times> shell" where
  "cmd_history s args =
     (EXIT_SUCCESS,
      s\<lparr>out := out s
             @ map (\<lambda>i. pad5 (string_of_nat (i + 1)) @ ''  '' @ history s ! i @ [CHR 0x0A])
                 [0..<length (history s)]\<rparr>)"

text \<open>
  \<open>cmd_alias\<close>: without an argument the table is listed; else \<open>args[1]\<close> is cut at its
  first \<open>=\<close> into name and value. The status is success also when \<open>add_alias\<close>
  refuses the definition.
\<close>

definition cmd_alias :: "shell \<Rightarrow> string list \<Rightarrow> int \<times> shell" where
  "cmd_alias s args =
     (case arg1 args of
        None \<Rightarrow>
          (EXIT_SUCCESS,
           s\<lparr>out := out s
                  @ map (\<lambda>a. ''alias '' @ alias_name a @ ''='' @ [CHR 0x27] @ alias_value a
                              @ [CHR 0x27, CHR 0x0A])
                      (aliases (config s))\<rparr>)
      | Some a1 \<Rightarrow>
          if CHR ''='' \<notin> set a1
          then (EXIT_FAILURE, print_error ''alias: invalid format. Use: alias name=value'' s)
          else (EXIT_SUCCESS,
                add_alias (takeWhile (\<lambda>c. c \<noteq> CHR ''='') a1)
                  (drop 1 (dropWhile (\<lambda>c. c \<noteq> CHR ''='') a1)) s))"

definition execute_builtin :: "os_env \<Rightarrow> shell \<Rightarrow> string list \<Rightarrow> int \<times> shell" where
  "execute_builtin e s args =
     (case args of
        [] \<Rightarrow> (EXIT_SUCCESS, s)
      | a0 # rest \<Rightarrow>
          if a0 = ''cd'' then cmd_cd e s args
          else if a0 = ''pwd'' then cmd_pwd s args
          else if a0 = ''exit'' then cmd_exit s args
          else if a0 = ''clear'' then cmd_clear s args
          else if a0 = ''help'' then cmd_help s args
          else if a0 = ''history'' then cmd_history s args
          else if a0 = ''alias'' then cmd_alias s args
          else (EXIT_NOT_FOUND, s))"

section \<open>execute_external and execute_command (main.c)\<close>

text \<open>
  The \<open>do ... while (!WIFEXITED(status) && !WIFSIGNALED(status))\<close> loop over the
  statuses that the successive \<open>waitpid\<close> calls report; \<open>None\<close> when the child never
  reaches a terminated state, so that the loop does not end.
\<close>

fun wait_loop :: "int list \<Rightarrow> int option" where
  "wait_loop [] = None"
| "wait_loop (st # sts) = (if WIFEXITED st \<or> WIFSIGNALED st then Some st else wait_loop sts)"

text \<open>
  A child whose \<open>execv\<close> fails prints the diagnostic and calls \<open>exit(EXIT_NOT_FOUND)\<close>,
  which the parent's \<open>waitpid\<close> reports as a normal exit with that code. What a running
  program itself does to the system is not part of the model.
\<close>

definition execute_external :: "os_env \<Rightarrow> shell \<Rightarrow> string list \<Rightarrow> fault + int \<times> shell" where
  "execute_external e s args =
     (case args of
        [] \<Rightarrow> Inr (EXIT_FAILURE, s)
      | a0 # rest \<Rightarrow>
          (case find_command e (os_cwd s) a0 of
             Inl f \<Rightarrow> Inl f
           | Inr None \<Rightarrow> Inr (EXIT_NOT_FOUND, print_error (a0 @ '': command not found'') s)
           | Inr (Some cmd_path) \<Rightarrow>
               (case sys_spawn e cmd_path args of
                  ForkFails errstr \<Rightarrow> Inr (EXIT_FAILURE, print_error (''fork: '' @ errstr) s)
                | ExecFails errstr \<Rightarrow>
                    Inr (EXIT_NOT_FOUND,
                         print_error (a0 @ '': execution failed: '' @ errstr)
                           (s\<lparr>execv_calls := execv_calls s @ [(cmd_path, args)]\<rparr>))
                | Runs statuses \<Rightarrow>
                    (case wait_loop statuses of
                       None \<Rightarrow> Inl WaitsForever
                     | Some st \<Rightarrow>
                         Inr (if WIFEXITED st then WEXITSTATUS st else EXIT_FAILURE,
                              s\<lparr>execv_calls := execv_calls s @ [(cmd_path, args)]\<rparr>)))))"

text \<open>
  The alias step of \<open>execute_command\<close>: when \<open>args[0]\<close> names an alias, the whole
  argument vector is freed and replaced by the parsed alias value.
\<close>

definition alias_step :: "shell \<Rightarrow> string list \<Rightarrow> string list" where
  "alias_step s args =
     (case args of
        [] \<Rightarrow> args
      | a0 # rest \<Rightarrow>
          (case get_alias a0 s of
             Some alias_val \<Rightarrow> parse_command alias_val
           | None \<Rightarrow> args))"

text \<open>The last step of \<open>execute_command\<close>: the built-ins first, then an external program.\<close>

definition run_args :: "os_env \<Rightarrow> shell \<Rightarrow> string list \<Rightarrow> fault + int \<times> shell" where
  "run_args e s args =
     (case execute_builtin e s args of
        (status, s') \<Rightarrow>
          if status = EXIT_NOT_FOUND then execute_external e s' args else Inr (status, s'))"

definition execute_command :: "os_env \<Rightarrow> shell \<Rightarrow> string \<Rightarrow> fault + int \<times> shell" where
  "execute_command e s command =
     (if command = [] then Inr (EXIT_SUCCESS, s)
      else (let s1 = add_to_history command s;
                args = parse_command command
            in run_args e s1 (alias_step s1 args)))"

section \<open>Notions used to state the properties\<close>

text \<open>
  The words of a text in the specification's sense: the maximal runs of bytes that are
  not separators, in order. \<open>split_acc\<close> reads the text once, from left to right, with
  the word begun so far.
\<close>

fun split_acc :: "string \<Rightarrow> string \<Rightarrow> string \<Rightarrow> string list" where
  "split_acc delims cur [] = (if cur = [] then [] else [cur])"
| "split_acc delims cur (c # cs) =
     (if c \<in> set delims
      then (if cur = [] then split_acc delims [] cs else cur # split_acc delims [] cs)
      else split_acc delims (cur @ [c]) cs)"

definition split_on :: "string \<Rightarrow> string \<Rightarrow> string list" where
  "split_on delims text = split_acc delims [] text"

definition line_words :: "string \<Rightarrow> string list" where
  "line_words line = split_on parse_delims line"

text \<open>A line written from words, with one blank between neighbours.\<close>

fun join_words :: "string list \<Rightarrow> string" where
  "join_words [] = []"
| "join_words [w] = w"
| "join_words (w # ws) = w @ '' '' @ join_words ws"

text \<open>A word as the tokenizer can deliver it: not empty and free of separators.\<close>

definition plain_word :: "string \<Rightarrow> bool" where
  "plain_word w = (w \<noteq> [] \<and> list_all (\<lambda>c. c \<notin> set parse_delims) w)"

text \<open>The names \<open>execute_builtin\<close> compares \<open>args[0]\<close> with.\<close>

definition builtin_names :: "string list" where
  "builtin_names = [''cd'', ''pwd'', ''exit'', ''clear'', ''help'', ''history'', ''alias'']"

text \<open>
  The state after \<open>initialize_shell\<close> in working directory \<open>cwd\<close> with an empty
  history file, and a small system for the examples: \<open>PATH\<close> is \<open>/bin\<close>, \<open>HOME\<close>
  is unset, the executables are those listed, every \<open>chdir\<close> fails, and every program
  exits at once with the given wait status.
\<close>

definition initial_shell :: "string \<Rightarrow> shell" where
  "initial_shell cwd =
     \<lparr>current_dir = cwd, running = 1, config = \<lparr>aliases = [], jobs = []\<rparr>,
      history = [], out = [], err = [], os_cwd = cwd,
      children = (\<lambda>pid. NoChild), execv_calls = []\<rparr>"

definition example_env :: "string list \<Rightarrow> int \<Rightarrow> os_env" where
  "example_env executables st =
     \<lparr>env_PATH = Some ''/bin'', env_HOME = None,
      access_X_OK = (\<lambda>cwd path. path \<in> set executables),
      sys_chdir = (\<lambda>cwd path. Inl ''No such file or directory''),
      getcwd_error = (\<lambda>cwd. None), getcwd_junk = [],
      sys_spawn = (\<lambda>path args. Runs [st])\<rparr>"

text \<open>A table filled to its capacity by one hundred definitions of different names.\<close>

definition alias_names :: "nat \<Rightarrow> string" where
  "alias_names i = replicate (Suc i) CHR ''a''"

definition hundred_aliases :: shell where
  "hundred_aliases =
     fold (\<lambda>i. add_alias (alias_names i) ''v'') [0..<100] (initial_shell ''/'')"

text \<open>A system in which \<open>HOME\<close> is \<open>/\<close> and \<open>chdir\<close> succeeds for \<open>/tmp\<close> only.\<close>

definition cd_env :: os_env where
  "cd_env = (example_env [] 0)\<lparr>env_HOME := Some ''/'',
     sys_chdir := (\<lambda>cwd path. if path = ''/tmp'' then Inr ''/tmp''
                                 else Inl ''No such file or directory'')\<rparr>"

text \<open>
  The search list in the specification's sense: the entries of \<open>PATH\<close> (of
  \<open>/bin:/usr/bin\<close> when the variable is unset), then the fixed directories with a
  leading \<open>~\<close> replaced by \<open>HOME\<close>; an entry is a non-empty piece between colons.
  \<open>root_env\<close> is a system with \<open>PATH=/usr/bin\<close> and \<open>HOME=/root\<close> in which
  \<open>/usr/bin/ls\<close> is executable.
\<close>

definition search_dirs :: "os_env \<Rightarrow> string list" where
  "search_dirs e =
     split_on '':'' (case env_PATH e of None \<Rightarrow> ''/bin:/usr/bin'' | Some path_env \<Rightarrow> path_env)
     @ concat (map (\<lambda>sp. split_on '':'' (expand_entry e sp)) standard_paths)"

definition root_env :: os_env where
  "root_env = (example_env [''/usr/bin/ls''] 0)\<lparr>env_PATH := Some ''/usr/bin'',
                                                   env_HOME := Some ''/root''\<rparr>"

text \<open>
  A system with \<open>PATH=/usr/bin\<close> and \<open>HOME=/root\<close> and the executables listed.
\<close>

definition home_env :: "string list \<Rightarrow> os_env" where
  "home_env executables =
     (example_env executables 0)\<lparr>env_PATH := Some ''/usr/bin'', env_HOME := Some ''/root''\<rparr>"

text \<open>
  A directory whose path has 4092 bytes, and a system in which \<open>chdir\<close> into a
  subdirectory always succeeds and a failing \<open>getcwd\<close> leaves that path in the buffer.
\<close>

definition deep_dir :: string where
  "deep_dir = concat (replicate 1023 ''/ddd'')"

definition deep_env :: os_env where
  "deep_env = (example_env [] 0)\<lparr>sys_chdir := (\<lambda>cwd path. Inr (cwd @ ''/'' @ path)),
                                   getcwd_junk := deep_dir\<rparr>"

text \<open>
  A state in which one job has been added and its process has since exited with code 3.
\<close>

definition reaped_example :: shell where
  "reaped_example =
     (add_job 4711 ''sleep 5'' (initial_shell ''/''))
       \<lparr>children := (\<lambda>pid. if pid = 4711 then ChildTerminated (3 * 256) else NoChild)\<rparr>"

text \<open>
  Two lines of more than 511 words: a program call and an alias definition, each
  followed by 600 words \<open>a\<close>.
\<close>

definition long_echo_line :: string where
  "long_echo_line = ''/bin/echo'' @ '' '' @ concat (replicate 600 ''a '')"

definition long_alias_line :: string where
  "long_alias_line = ''alias'' @ '' '' @ (''n=v'' @ '' '' @ concat (replicate 600 ''a ''))"

section \<open>The tokenizer\<close>

lemma split_acc_split:
  "split_acc delims cur s =
     (if cur @ takeWhile (\<lambda>c. c \<notin> set delims) s = [] then []
      else [cur @ takeWhile (\<lambda>c. c \<notin> set delims) s])
     @ split_acc delims [] (drop 1 (dropWhile (\<lambda>c. c \<notin> set delims) s))"
  by (induction s arbitrary: cur) auto

lemma split_acc_skip:
  "split_acc delims [] s = split_acc delims [] (dropWhile (\<lambda>c. c \<in> set delims) s)"
  by (induction s) auto

lemma strtok_None_split:
  assumes "strtok delims s = None"
  shows "split_on delims s = []"
proof -
  from assms have d: "dropWhile (\<lambda>c. c \<in> set delims) s = []"
    by (simp add: strtok_def Let_def split: if_splits)
  have "split_acc delims [] s = split_acc delims [] (dropWhile (\<lambda>c. c \<in> set delims) s)"
    by (rule split_acc_skip)
  also have "\<dots> = []"
    unfolding d by simp
  finally show ?thesis
    by (simp add: split_on_def)
qed

lemma strtok_Some_split:
  assumes "strtok delims s = Some (token, rest)"
  shows "split_on delims s = token # split_on delims rest"
proof -
  let ?s = "dropWhile (\<lambda>c. c \<in> set delims) s"
  from assms have ne: "?s \<noteq> []"
    and t: "token = takeWhile (\<lambda>c. c \<notin> set delims) ?s"
    and r: "rest = drop 1 (dropWhile (\<lambda>c. c \<notin> set delims) ?s)"
    by (auto simp: strtok_def Let_def split: if_splits)
  have "hd ?s \<notin> set delims"
    using ne hd_dropWhile by metis
  with ne t have "token \<noteq> []"
    by (cases ?s) auto
  then have "split_acc delims [] ?s = token # split_acc delims [] rest"
    using split_acc_split [of delims "[]" ?s] t r by simp
  then show ?thesis
    unfolding split_on_def using split_acc_skip [of delims s] by simp
qed

lemma parse_loop_words:
  "parse_loop rest args = args @ take (MAX_ARGS - 1 - length args) (line_words rest)"
proof (induction rest args rule: parse_loop.induct)
  case (1 rest args)
  show ?case
  proof (cases "strtok parse_delims rest")
    case None
    then show ?thesis
      by (simp add: parse_loop.simps [of rest args] strtok_None_split line_words_def)
  next
    case (Some p)
    obtain token rest' where p: "p = (token, rest')"
      by (cases p)
    show ?thesis
    proof (cases "length args < MAX_ARGS - 1")
      case True
      then have "MAX_ARGS - 1 - length args = Suc (MAX_ARGS - 1 - length (args @ [token]))"
        by simp
      with 1 Some p True show ?thesis
        by (simp add: parse_loop.simps [of rest args] strtok_Some_split line_words_def
            del: length_append)
    next
      case False
      with Some p show ?thesis
        by (simp add: parse_loop.simps [of rest args])
    qed
  qed
qed

lemma parse_command_words:
  "parse_command line = take (MAX_ARGS - 1) (line_words line)"
  using parse_loop_words [of line "[]"] by (simp add: parse_command_def)

lemma split_acc_word:
  "list_all (\<lambda>c. c \<notin> set delims) w \<Longrightarrow>
   split_acc delims cur (w @ s) = split_acc delims (cur @ w) s"
  by (induction w arbitrary: cur) auto

lemma line_words_join:
  assumes "list_all plain_word ws"
  shows "line_words (join_words ws) = ws"
  using assms
proof (induction ws rule: join_words.induct)
  case 1
  then show ?case
    by (simp add: line_words_def split_on_def)
next
  case (2 w)
  then have "split_acc parse_delims [] (w @ []) = split_acc parse_delims ([] @ w) []"
    by (intro split_acc_word) (simp add: plain_word_def)
  with 2 show ?case
    by (simp add: line_words_def split_on_def plain_word_def)
next
  case (3 w v ws)
  then have "split_acc parse_delims [] (w @ '' '' @ join_words (v # ws)) =
             split_acc parse_delims ([] @ w) ('' '' @ join_words (v # ws))"
    by (intro split_acc_word) (simp add: plain_word_def)
  with 3 show ?case
    by (simp add: line_words_def split_on_def plain_word_def parse_delims_def)
qed

lemma parse_command_join:
  assumes "list_all plain_word ws" and "length ws \<le> MAX_ARGS - 1"
  shows "parse_command (join_words ws) = ws"
  using assms by (simp add: parse_command_words line_words_join)

lemma line_words_repeat:
  "line_words (concat (replicate n ''a '')) = replicate n ''a''"
  by (induction n) (simp_all add: line_words_def split_on_def parse_delims_def)

lemma parse_command_600_words:
  "parse_command (concat (replicate 600 ''a '')) = replicate 511 ''a''"
  by (simp add: parse_command_words line_words_repeat MAX_ARGS_def)

lemma parse_command_empty:
  "parse_command [] = []"
  by (simp add: parse_command_words line_words_def split_on_def)

lemma execute_command_parsed:
  assumes "parse_command line = a # args"
  shows "execute_command e s line =
         run_args e (add_to_history line s) (alias_step (add_to_history line s) (a # args))"
proof -
  from assms have "line \<noteq> []"
    using parse_command_empty by auto
  with assms show ?thesis
    by (simp add: execute_command_def Let_def)
qed

section \<open>No code path records a job or runs in the background\<close>

lemma print_error_jobs: "jobs (config (print_error msg s)) = jobs (config s)"
  by (simp add: print_error_def)

lemma add_alias_jobs: "jobs (config (add_alias name val s)) = jobs (config s)"
  by (simp add: add_alias_def print_error_jobs split: option.splits)

lemma execute_builtin_jobs:
  assumes "execute_builtin e s args = (status, s')"
  shows "jobs (config s') = jobs (config s)"
  using assms
  by (auto simp: execute_builtin_def cmd_cd_def cmd_pwd_def cmd_exit_def cmd_clear_def
      cmd_help_def cmd_history_def cmd_alias_def printf_def add_alias_jobs print_error_jobs
      split: list.splits if_splits sum.splits option.splits)

lemma execute_external_jobs:
  assumes "execute_external e s args = Inr (status, s')"
  shows "jobs (config s') = jobs (config s)"
  using assms
  by (auto simp: execute_external_def print_error_jobs
      split: list.splits if_splits sum.splits option.splits spawn.splits)

lemma run_args_jobs:
  assumes "run_args e s args = Inr (status, s')"
  shows "jobs (config s') = jobs (config s)"
proof (cases "execute_builtin e s args")
  case (Pair st s1)
  with assms show ?thesis
    using execute_builtin_jobs [OF Pair] execute_external_jobs [of e s1 args status s']
    by (auto simp: run_args_def split: if_splits)
qed

lemma execute_command_jobs:
  assumes "execute_command e s line = Inr (status, s')"
  shows "jobs (config s') = jobs (config s)"
  using assms run_args_jobs [of e "add_to_history line s" _ status s']
  by (auto simp: execute_command_def Let_def add_to_history_def split: if_splits)

section \<open>Dispatch: aliases, built-ins, command not found\<close>

lemma get_alias_add_to_history:
  "get_alias w (add_to_history line s) = get_alias w s"
  by (simp add: get_alias_def add_to_history_def)

lemma execute_command_alias:
  assumes "parse_command line = w # rest" and "get_alias w s = Some v"
  shows "execute_command e s line = run_args e (add_to_history line s) (parse_command v)"
  using assms execute_command_parsed [of line w rest e s]
  by (simp add: alias_step_def get_alias_add_to_history)

lemma execute_command_no_alias:
  assumes "parse_command line = w # rest" and "get_alias w s = None"
  shows "execute_command e s line = run_args e (add_to_history line s) (w # rest)"
  using assms execute_command_parsed [of line w rest e s]
  by (simp add: alias_step_def get_alias_add_to_history)

lemma execute_builtin_not_builtin:
  assumes "a0 \<notin> set builtin_names"
  shows "execute_builtin e s (a0 # rest) = (EXIT_NOT_FOUND, s)"
  using assms by (simp add: execute_builtin_def builtin_names_def)

text \<open>
  C4. When the first word of a dispatched line is a defined alias, the command that is
  run is the parsed alias value alone: the words of the line after the first one do not
  appear in it. With \<open>ll\<close> defined as \<open>ls -la\<close>, the line \<open>ll extra\<close> starts
  \<open>ls\<close> with the argument vector \<open>ls\<close>, \<open>-la\<close>.
\<close>

theorem alias_replaces_whole_command:
  assumes "parse_command line = w # rest" and "get_alias w s = Some v"
  shows "execute_command e s line = run_args e (add_to_history line s) (parse_command v)"
  using assms by (rule execute_command_alias)

theorem alias_replaces_whole_command_witness:
  "parse_command ''ll extra'' = [''ll'', ''extra'']
   \<and> get_alias ''ll'' (add_alias ''ll'' ''ls -la'' (initial_shell ''/'')) = Some ''ls -la''
   \<and> parse_command ''ls -la'' = [''ls'', ''-la'']
   \<and> execv_calls (snd (projr (execute_command (example_env [''/bin/ls''] 0)
          (add_alias ''ll'' ''ls -la'' (initial_shell ''/'')) ''ll extra'')))
       = [(''/bin/ls'', [''ls'', ''-la''])]"
proof -
  let ?s = "add_alias ''ll'' ''ls -la'' (initial_shell ''/'')"
  let ?e = "example_env [''/bin/ls''] 0"
  have h1: "parse_command ''ll extra'' = [''ll'', ''extra'']"
    by code_simp
  have h2: "get_alias ''ll'' ?s = Some ''ls -la''"
    by code_simp
  have h3: "parse_command ''ls -la'' = [''ls'', ''-la'']"
    by code_simp
  have "execv_calls (snd (projr (run_args ?e (add_to_history ''ll extra'' ?s)
          (parse_command ''ls -la'')))) = [(''/bin/ls'', [''ls'', ''-la''])]"
    by code_simp
  with alias_replaces_whole_command [OF h1 h2, of ?e] h1 h2 h3 show ?thesis
    by simp
qed

text \<open>
  When the first word of a line is no alias, none of the names of the built-ins, and
  \<open>find_command\<close> returns NULL for it, the dispatch returns 127 and writes one
  diagnostic to standard error; the line has been added to the history, and nothing else
  of the state changes.
\<close>

lemma command_not_found_127:
  assumes "parse_command line = w # rest"
    and "get_alias w s = None"
    and "w \<notin> set builtin_names"
    and "find_command e (os_cwd s) w = Inr None"
  shows "execute_command e s line =
         Inr (127, s\<lparr>history := history s @ [line],
                     err := err s @ [COLOR_RED @ ''Error:'' @ COLOR_RESET @ '' '' @ w
                                     @ '': command not found'' @ [CHR 0x0A]]\<rparr>)"
proof -
  from assms(1) have "line \<noteq> []"
    using parse_command_empty by auto
  then have h: "add_to_history line s = s\<lparr>history := history s @ [line]\<rparr>"
    by (simp add: add_to_history_def)
  have "execute_command e s line = run_args e (add_to_history line s) (w # rest)"
    using assms(1,2) by (rule execute_command_no_alias)
  also have "\<dots> = execute_external e (add_to_history line s) (w # rest)"
    using assms(3) by (simp add: run_args_def execute_builtin_not_builtin)
  also have "\<dots> = Inr (EXIT_NOT_FOUND,
      print_error (w @ '': command not found'') (add_to_history line s))"
    using assms(4) by (simp add: execute_external_def h)
  finally show ?thesis
    by (simp add: h print_error_def EXIT_NOT_FOUND_def)
qed

lemma command_not_found_127_example:
  "parse_command ''frobnicate now'' = [''frobnicate'', ''now'']
   \<and> get_alias ''frobnicate'' (initial_shell ''/'') = None
   \<and> ''frobnicate'' \<notin> set builtin_names
   \<and> find_command (example_env [''/bin/ls''] 0) (os_cwd (initial_shell ''/'')) ''frobnicate'' = Inr None
   \<and> execute_command (example_env [''/bin/ls''] 0) (initial_shell ''/'') ''frobnicate now'' =
       Inr (127, (initial_shell ''/'')\<lparr>history := [''frobnicate now''],
                   err := [COLOR_RED @ ''Error:'' @ COLOR_RESET
                           @ '' frobnicate: command not found'' @ [CHR 0x0A]]\<rparr>)"
proof -
  have h1: "parse_command ''frobnicate now'' = [''frobnicate'', ''now'']"
    by code_simp
  have h2: "get_alias ''frobnicate'' (initial_shell ''/'') = None"
    by code_simp
  have h3: "''frobnicate'' \<notin> set builtin_names"
    by (simp add: builtin_names_def)
  have h4: "find_command (example_env [''/bin/ls''] 0) (os_cwd (initial_shell ''/'')) ''frobnicate''
            = Inr None"
    by code_simp
  from command_not_found_127 [OF h1 h2 h3 h4] h1 h2 h3 h4 show ?thesis
    by (simp add: initial_shell_def)
qed



lemma self_alias_returns:
  "\<not> isl (execute_command (example_env [''/bin/ls''] 0)
            (add_alias ''a'' ''a -x'' (initial_shell ''/'')) ''a'')
   \<and> fst (projr (execute_command (example_env [''/bin/ls''] 0)
            (add_alias ''a'' ''a -x'' (initial_shell ''/'')) ''a'')) = 127
   \<and> execv_calls (snd (projr (execute_command (example_env [''/bin/a''] 0)
            (add_alias ''a'' ''a -x'' (initial_shell ''/'')) ''a'')))
       = [(''/bin/a'', [''a'', ''-x''])]"
  by code_simp

section \<open>The alias table\<close>

lemma replace_alias_length:
  "replace_alias name val as = Some as' \<Longrightarrow> length as' = length as"
  by (induction as arbitrary: as') (auto split: if_splits)

lemma replace_alias_None:
  "replace_alias name val as = None \<longleftrightarrow> get_alias_loop name as = None"
  by (induction as) auto

lemma replace_alias_lookup:
  "replace_alias name val as = Some as' \<Longrightarrow>
   get_alias_loop n as' = (if n = name then Some val else get_alias_loop n as)"
  by (induction as arbitrary: as') (auto split: if_splits)

lemma add_alias_overwrites_below_capacity:
  assumes "length (aliases (config s)) < MAX_ALIASES" and "get_alias name s = Some old"
  shows "get_alias name (add_alias name val s) = Some val
         \<and> length (aliases (config (add_alias name val s))) = length (aliases (config s))
         \<and> (\<forall>n. n \<noteq> name \<longrightarrow> get_alias n (add_alias name val s) = get_alias n s)"
proof -
  from assms(2) obtain as' where r: "replace_alias name val (aliases (config s)) = Some as'"
    using replace_alias_None [of name val "aliases (config s)"]
    by (cases "replace_alias name val (aliases (config s))") (auto simp: get_alias_def)
  with assms(1) have "aliases (config (add_alias name val s)) = as'"
    by (simp add: add_alias_def)
  with r show ?thesis
    by (simp add: get_alias_def replace_alias_length replace_alias_lookup)
qed

lemma get_alias_loop_append:
  "get_alias_loop n (as @ bs) =
     (case get_alias_loop n as of Some v \<Rightarrow> Some v | None \<Rightarrow> get_alias_loop n bs)"
  by (induction as) auto

lemma add_alias_inserts_below_capacity:
  assumes "length (aliases (config s)) < MAX_ALIASES" and "get_alias name s = None"
  shows "get_alias name (add_alias name val s) = Some val
         \<and> length (aliases (config (add_alias name val s))) = length (aliases (config s)) + 1
         \<and> (\<forall>n. n \<noteq> name \<longrightarrow> get_alias n (add_alias name val s) = get_alias n s)"
proof -
  from assms(2) have "replace_alias name val (aliases (config s)) = None"
    by (simp add: replace_alias_None get_alias_def)
  with assms(1) have "aliases (config (add_alias name val s)) =
      aliases (config s) @ [\<lparr>alias_name = name, alias_value = val\<rparr>]"
    by (simp add: add_alias_def)
  with assms(2) show ?thesis
    by (auto simp: get_alias_def get_alias_loop_append split: option.splits)
qed

lemma add_alias_at_capacity:
  assumes "length (aliases (config s)) \<ge> MAX_ALIASES"
  shows "add_alias name val s = print_error ''Maximum number of aliases reached'' s
         \<and> config (add_alias name val s) = config s"
  using assms by (simp add: add_alias_def print_error_def)

lemma replace_alias_fresh:
  "name \<notin> alias_name ` set as \<Longrightarrow> replace_alias name val as = None"
  by (induction as) auto

lemma fold_add_alias:
  assumes "n \<le> MAX_ALIASES"
  shows "fold (\<lambda>i. add_alias (alias_names i) val) [0..<n] (initial_shell cwd) =
         (initial_shell cwd)\<lparr>config :=
            \<lparr>aliases = map (\<lambda>i. \<lparr>alias_name = alias_names i, alias_value = val\<rparr>) [0..<n],
             jobs = []\<rparr>\<rparr>"
  using assms
proof (induction n)
  case 0
  then show ?case
    by (simp add: initial_shell_def)
next
  case (Suc n)
  let ?as = "map (\<lambda>i. \<lparr>alias_name = alias_names i, alias_value = val\<rparr>) [0..<n]"
  have "alias_names n \<notin> alias_name ` set ?as"
  proof
    assume "alias_names n \<in> alias_name ` set ?as"
    then obtain i where "i < n" and "alias_names n = alias_names i"
      by auto
    then have "length (alias_names n) = length (alias_names i)"
      by simp
    with \<open>i < n\<close> show False
      by (simp add: alias_names_def)
  qed
  then have "replace_alias (alias_names n) val ?as = None"
    by (rule replace_alias_fresh)
  with Suc show ?case
    by (simp add: add_alias_def)
qed

lemma hundred_aliases_table:
  "aliases (config hundred_aliases) =
   map (\<lambda>i. \<lparr>alias_name = alias_names i, alias_value = ''v''\<rparr>) [0..<100]"
  "err hundred_aliases = []"
proof -
  have h: "hundred_aliases = (initial_shell ''/'')\<lparr>config :=
            \<lparr>aliases = map (\<lambda>i. \<lparr>alias_name = alias_names i, alias_value = ''v''\<rparr>) [0..<100],
             jobs = []\<rparr>\<rparr>"
    unfolding hundred_aliases_def by (rule fold_add_alias) (simp add: MAX_ALIASES_def)
  show "aliases (config hundred_aliases) =
      map (\<lambda>i. \<lparr>alias_name = alias_names i, alias_value = ''v''\<rparr>) [0..<100]"
    and "err hundred_aliases = []"
    unfolding h by (simp_all add: initial_shell_def)
qed

text \<open>
  C7. Below the capacity \<open>add_alias\<close> does what the claim says (the three lemmas
  above), and on a full table a new name is refused with the table unchanged. But the
  capacity test comes before the search for the name: on a full table, defining a name
  that the table already holds is refused as well, and the old value stays.
\<close>

theorem add_alias_full_table_keeps_old_value:
  "length (aliases (config hundred_aliases)) = MAX_ALIASES
   \<and> get_alias ''a'' hundred_aliases = Some ''v''
   \<and> get_alias ''a'' (add_alias ''a'' ''new'' hundred_aliases) = Some ''v''
   \<and> err (add_alias ''a'' ''new'' hundred_aliases) =
       [COLOR_RED @ ''Error:'' @ COLOR_RESET @ '' Maximum number of aliases reached'' @ [CHR 0x0A]]"
proof -
  have len: "length (aliases (config hundred_aliases)) = MAX_ALIASES"
    by (simp add: hundred_aliases_table MAX_ALIASES_def)
  have "[0..<100] = 0 # [1..<100]"
    by (simp add: upt_conv_Cons)
  then have old: "get_alias ''a'' hundred_aliases = Some ''v''"
    by (simp add: get_alias_def hundred_aliases_table alias_names_def)
  from len have full: "add_alias ''a'' ''new'' hundred_aliases =
      print_error ''Maximum number of aliases reached'' hundred_aliases"
    by (simp add: add_alias_at_capacity)
  from old have "get_alias ''a'' (add_alias ''a'' ''new'' hundred_aliases) = Some ''v''"
    by (simp add: full get_alias_def print_error_def)
  moreover have "err (add_alias ''a'' ''new'' hundred_aliases) =
      [COLOR_RED @ ''Error:'' @ COLOR_RESET @ '' Maximum number of aliases reached'' @ [CHR 0x0A]]"
    by (simp add: full print_error_def hundred_aliases_table)
  ultimately show ?thesis
    using len old by simp
qed

section \<open>Changing and printing the working directory\<close>

lemma cmd_cd_chdir_fails:
  assumes "cd_target e args = Inr target" and "sys_chdir e (os_cwd s) target = Inl errstr"
  shows "cmd_cd e s args =
         (EXIT_FAILURE, s\<lparr>err := err s @ [COLOR_RED @ ''Error:'' @ COLOR_RESET @ '' cd: ''
                                              @ target @ '': '' @ errstr @ [CHR 0x0A]]\<rparr>)"
  using assms by (simp add: cmd_cd_def print_error_def)

lemma cmd_cd_no_home:
  assumes "cd_target e args = Inl msg"
  shows "cmd_cd e s args = (EXIT_FAILURE, print_error msg s)"
  using assms by (simp add: cmd_cd_def)

lemma cmd_cd_success:
  assumes "cmd_cd e s args = (EXIT_SUCCESS, s')"
  shows "\<exists>target. cd_target e args = Inr target
           \<and> sys_chdir e (os_cwd s) target = Inr (os_cwd s')
           \<and> current_dir s' = os_cwd s'"
  using assms
  by (auto simp: cmd_cd_def sys_getcwd_def print_error_def EXIT_SUCCESS_def EXIT_FAILURE_def
      split: sum.splits option.splits if_splits)

lemma deep_dir_length: "length deep_dir = 4092"
  by (simp add: deep_dir_def length_concat sum_list_replicate)

lemma cmd_cd_getcwd_fails:
  assumes "cd_target e args = Inr target"
    and "sys_chdir e (os_cwd s) target = Inr dir"
    and "sys_getcwd e dir MAX_PATH_LENGTH = Inl errstr"
  shows "cmd_cd e s args =
         (EXIT_FAILURE,
          s\<lparr>os_cwd := dir, current_dir := getcwd_junk e,
            err := err s @ [COLOR_RED @ ''Error:'' @ COLOR_RESET @ '' getcwd: ''
                            @ errstr @ [CHR 0x0A]]\<rparr>)"
  using assms by (simp add: cmd_cd_def print_error_def)

lemma cmd_cd_succeeds:
  assumes "cd_target e args = Inr target"
    and "sys_chdir e (os_cwd s) target = Inr dir"
    and "getcwd_error e dir = None"
    and "length dir < MAX_PATH_LENGTH"
  shows "cmd_cd e s args = (EXIT_SUCCESS, s\<lparr>os_cwd := dir, current_dir := dir\<rparr>)"
  using assms by (simp add: cmd_cd_def sys_getcwd_def)

text \<open>
  C8, as the claim states it, fails: from a working directory whose path has 4092 bytes,
  \<open>cd sub\<close> changes the directory of the process, but the new path does not fit into
  the \<open>MAX_PATH_LENGTH\<close> bytes of \<open>current_dir\<close>, \<open>getcwd\<close> fails, the status
  is \<open>EXIT_FAILURE\<close>, and \<open>current_dir\<close> and \<open>cmd_pwd\<close> still give the old
  directory.
\<close>

theorem cd_out_of_sync_counterexample:
  "sys_chdir deep_env (os_cwd (initial_shell deep_dir)) ''sub'' = Inr (deep_dir @ ''/sub'')
   \<and> fst (cmd_cd deep_env (initial_shell deep_dir) [''cd'', ''sub'']) = EXIT_FAILURE
   \<and> os_cwd (snd (cmd_cd deep_env (initial_shell deep_dir) [''cd'', ''sub''])) = deep_dir @ ''/sub''
   \<and> current_dir (snd (cmd_cd deep_env (initial_shell deep_dir) [''cd'', ''sub''])) = deep_dir
   \<and> current_dir (snd (cmd_cd deep_env (initial_shell deep_dir) [''cd'', ''sub'']))
       \<noteq> os_cwd (snd (cmd_cd deep_env (initial_shell deep_dir) [''cd'', ''sub'']))
   \<and> out (snd (cmd_pwd (snd (cmd_cd deep_env (initial_shell deep_dir) [''cd'', ''sub'']))
                [''pwd''])) = [deep_dir @ [CHR 0x0A]]"
proof -
  have t: "cd_target deep_env [''cd'', ''sub''] = Inr ''sub''"
    by (simp add: cd_target_def)
  have c: "sys_chdir deep_env (os_cwd (initial_shell deep_dir)) ''sub'' = Inr (deep_dir @ ''/sub'')"
    by (simp add: deep_env_def example_env_def initial_shell_def)
  have g: "sys_getcwd deep_env (deep_dir @ ''/sub'') MAX_PATH_LENGTH
           = Inl ''Numerical result out of range''"
    by (simp add: sys_getcwd_def deep_env_def example_env_def deep_dir_length MAX_PATH_LENGTH_def)
  have j: "getcwd_junk deep_env = deep_dir"
    by (simp add: deep_env_def)
  from cmd_cd_getcwd_fails [OF t c g] c show ?thesis
    by (simp add: j cmd_pwd_def printf_def initial_shell_def)
qed

text \<open>
  C8, amended. \<open>cmd_cd\<close> takes \<open>HOME\<close> as its target when there is no argument
  (with \<open>HOME\<close> unset it only writes a diagnostic and fails) and \<open>args[1]\<close>
  otherwise. When \<open>chdir\<close> to the target fails, the status is \<open>EXIT_FAILURE\<close> and
  the state is the old one but for the diagnostic that carries the system's error text,
  so \<open>current_dir\<close> is unchanged. When \<open>chdir\<close> succeeds and \<open>getcwd\<close> succeeds
  (no system error, and the new path is shorter than \<open>MAX_PATH_LENGTH\<close>), the status
  is \<open>EXIT_SUCCESS\<close>, \<open>current_dir\<close> holds the new directory and \<open>cmd_pwd\<close>
  prints it. When \<open>chdir\<close> succeeds and \<open>getcwd\<close> fails, the process is in the new
  directory, the status is \<open>EXIT_FAILURE\<close>, the error of \<open>getcwd\<close> is reported, and
  \<open>current_dir\<close> holds what \<open>getcwd\<close> left in the buffer. These are all cases, and
  \<open>EXIT_SUCCESS\<close> is returned only with \<open>current_dir\<close> in step.
\<close>

theorem cd_keeps_current_dir_in_sync:
  "cd_target e [a0] = (case env_HOME e of
                         None \<Rightarrow> Inl ''HOME environment variable not set''
                       | Some home \<Rightarrow> Inr home)
   \<and> cd_target e (a0 # a1 # rest) = Inr a1
   \<and> (\<forall>msg. cd_target e (a0 # args) = Inl msg \<longrightarrow>
         cmd_cd e s (a0 # args) =
           (EXIT_FAILURE, s\<lparr>err := err s @ [COLOR_RED @ ''Error:'' @ COLOR_RESET @ '' ''
                                                @ msg @ [CHR 0x0A]]\<rparr>))
   \<and> (\<forall>target errstr.
         cd_target e (a0 # args) = Inr target \<and> sys_chdir e (os_cwd s) target = Inl errstr \<longrightarrow>
         cmd_cd e s (a0 # args) =
           (EXIT_FAILURE, s\<lparr>err := err s @ [COLOR_RED @ ''Error:'' @ COLOR_RESET @ '' cd: ''
                                                @ target @ '': '' @ errstr @ [CHR 0x0A]]\<rparr>))
   \<and> (\<forall>target dir.
         cd_target e (a0 # args) = Inr target \<and> sys_chdir e (os_cwd s) target = Inr dir
         \<and> getcwd_error e dir = None \<and> length dir < MAX_PATH_LENGTH \<longrightarrow>
         cmd_cd e s (a0 # args) = (EXIT_SUCCESS, s\<lparr>os_cwd := dir, current_dir := dir\<rparr>)
         \<and> cmd_pwd (s\<lparr>os_cwd := dir, current_dir := dir\<rparr>) args' =
             (EXIT_SUCCESS, s\<lparr>os_cwd := dir, current_dir := dir,
                               out := out s @ [dir @ [CHR 0x0A]]\<rparr>))
   \<and> (\<forall>target dir errstr.
         cd_target e (a0 # args) = Inr target \<and> sys_chdir e (os_cwd s) target = Inr dir
         \<and> sys_getcwd e dir MAX_PATH_LENGTH = Inl errstr \<longrightarrow>
         cmd_cd e s (a0 # args) =
           (EXIT_FAILURE,
            s\<lparr>os_cwd := dir, current_dir := getcwd_junk e,
              err := err s @ [COLOR_RED @ ''Error:'' @ COLOR_RESET @ '' getcwd: ''
                              @ errstr @ [CHR 0x0A]]\<rparr>))
   \<and> (\<forall>s'. cmd_cd e s (a0 # args) = (EXIT_SUCCESS, s') \<longrightarrow>
         (\<exists>target. cd_target e (a0 # args) = Inr target
            \<and> sys_chdir e (os_cwd s) target = Inr (os_cwd s'))
         \<and> current_dir s' = os_cwd s'
         \<and> cmd_pwd s' args' = (EXIT_SUCCESS, s'\<lparr>out := out s' @ [os_cwd s' @ [CHR 0x0A]]\<rparr>))"
proof -
  have "cd_target e [a0] = (case env_HOME e of
                         None \<Rightarrow> Inl ''HOME environment variable not set''
                       | Some home \<Rightarrow> Inr home)"
    by (simp add: cd_target_def)
  moreover have "cd_target e (a0 # a1 # rest) = Inr a1"
    by (simp add: cd_target_def)
  moreover have "\<forall>msg. cd_target e (a0 # args) = Inl msg \<longrightarrow>
         cmd_cd e s (a0 # args) =
           (EXIT_FAILURE, s\<lparr>err := err s @ [COLOR_RED @ ''Error:'' @ COLOR_RESET @ '' ''
                                                @ msg @ [CHR 0x0A]]\<rparr>)"
    by (simp add: cmd_cd_no_home print_error_def)
  moreover have "\<forall>target dir.
         cd_target e (a0 # args) = Inr target \<and> sys_chdir e (os_cwd s) target = Inr dir
         \<and> getcwd_error e dir = None \<and> length dir < MAX_PATH_LENGTH \<longrightarrow>
         cmd_cd e s (a0 # args) = (EXIT_SUCCESS, s\<lparr>os_cwd := dir, current_dir := dir\<rparr>)
         \<and> cmd_pwd (s\<lparr>os_cwd := dir, current_dir := dir\<rparr>) args' =
             (EXIT_SUCCESS, s\<lparr>os_cwd := dir, current_dir := dir,
                               out := out s @ [dir @ [CHR 0x0A]]\<rparr>)"
    by (simp add: cmd_cd_succeeds cmd_pwd_def printf_def)
  moreover have "\<forall>target dir errstr.
         cd_target e (a0 # args) = Inr target \<and> sys_chdir e (os_cwd s) target = Inr dir
         \<and> sys_getcwd e dir MAX_PATH_LENGTH = Inl errstr \<longrightarrow>
         cmd_cd e s (a0 # args) =
           (EXIT_FAILURE,
            s\<lparr>os_cwd := dir, current_dir := getcwd_junk e,
              err := err s @ [COLOR_RED @ ''Error:'' @ COLOR_RESET @ '' getcwd: ''
                              @ errstr @ [CHR 0x0A]]\<rparr>)"
    using cmd_cd_getcwd_fails [of e "a0 # args" _ s] by blast
  moreover have "\<forall>s'. cmd_cd e s (a0 # args) = (EXIT_SUCCESS, s') \<longrightarrow>
         (\<exists>target. cd_target e (a0 # args) = Inr target
            \<and> sys_chdir e (os_cwd s) target = Inr (os_cwd s'))
         \<and> current_dir s' = os_cwd s'
         \<and> cmd_pwd s' args' = (EXIT_SUCCESS, s'\<lparr>out := out s' @ [os_cwd s' @ [CHR 0x0A]]\<rparr>)"
  proof (intro allI impI)
    fix s'
    assume "cmd_cd e s (a0 # args) = (EXIT_SUCCESS, s')"
    from cmd_cd_success [OF this] show "(\<exists>target. cd_target e (a0 # args) = Inr target
            \<and> sys_chdir e (os_cwd s) target = Inr (os_cwd s'))
         \<and> current_dir s' = os_cwd s'
         \<and> cmd_pwd s' args' = (EXIT_SUCCESS, s'\<lparr>out := out s' @ [os_cwd s' @ [CHR 0x0A]]\<rparr>)"
      by (auto simp: cmd_pwd_def printf_def)
  qed
  ultimately show ?thesis
    using cmd_cd_chdir_fails [of e "a0 # args" _ s] by blast
qed

theorem cd_keeps_current_dir_in_sync_witness:
  "cd_target (example_env [] 0) [''cd''] = Inl ''HOME environment variable not set''
   \<and> fst (cmd_cd (example_env [] 0) (initial_shell ''/home'') [''cd'']) = EXIT_FAILURE
   \<and> current_dir (snd (cmd_cd (example_env [] 0) (initial_shell ''/home'') [''cd''])) = ''/home''
   \<and> cd_target cd_env [''cd''] = Inr ''/''
   \<and> sys_chdir cd_env (os_cwd (initial_shell ''/home'')) ''/nonexistent''
       = Inl ''No such file or directory''
   \<and> fst (cmd_cd cd_env (initial_shell ''/home'') [''cd'', ''/nonexistent'']) = EXIT_FAILURE
   \<and> current_dir (snd (cmd_cd cd_env (initial_shell ''/home'') [''cd'', ''/nonexistent'']))
       = ''/home''
   \<and> sys_chdir cd_env (os_cwd (initial_shell ''/home'')) ''/tmp'' = Inr ''/tmp''
   \<and> fst (cmd_cd cd_env (initial_shell ''/home'') [''cd'', ''/tmp'']) = EXIT_SUCCESS
   \<and> os_cwd (snd (cmd_cd cd_env (initial_shell ''/home'') [''cd'', ''/tmp''])) = ''/tmp''
   \<and> current_dir (snd (cmd_cd cd_env (initial_shell ''/home'') [''cd'', ''/tmp''])) = ''/tmp''
   \<and> out (snd (cmd_pwd (snd (cmd_cd cd_env (initial_shell ''/home'') [''cd'', ''/tmp'']))
                [''pwd''])) = [''/tmp'' @ [CHR 0x0A]]
   \<and> sys_chdir deep_env (os_cwd (initial_shell deep_dir)) ''sub'' = Inr (deep_dir @ ''/sub'')
   \<and> sys_getcwd deep_env (deep_dir @ ''/sub'') MAX_PATH_LENGTH
       = Inl ''Numerical result out of range''
   \<and> fst (cmd_cd deep_env (initial_shell deep_dir) [''cd'', ''sub'']) = EXIT_FAILURE
   \<and> os_cwd (snd (cmd_cd deep_env (initial_shell deep_dir) [''cd'', ''sub'']))
       = deep_dir @ ''/sub''
   \<and> current_dir (snd (cmd_cd deep_env (initial_shell deep_dir) [''cd'', ''sub''])) = deep_dir"
proof -
  let ?s = "initial_shell ''/home''"
  let ?none = "cmd_cd (example_env [] 0) ?s [''cd'']"
  let ?bad = "cmd_cd cd_env ?s [''cd'', ''/nonexistent'']"
  let ?good = "cmd_cd cd_env ?s [''cd'', ''/tmp'']"
  let ?deep = "cmd_cd deep_env (initial_shell deep_dir) [''cd'', ''sub'']"
  have n: "cd_target (example_env [] 0) [''cd''] = Inl ''HOME environment variable not set''"
    by (simp add: cd_target_def example_env_def)
  from cd_keeps_current_dir_in_sync
    [where e = "example_env [] 0" and ?a0.0 = "''cd''" and args = "[]" and s = ?s] n
  have none: "?none = (EXIT_FAILURE, ?s\<lparr>err := err ?s @ [COLOR_RED @ ''Error:'' @ COLOR_RESET
      @ '' '' @ ''HOME environment variable not set'' @ [CHR 0x0A]]\<rparr>)"
    by blast
  have h: "cd_target cd_env [''cd''] = Inr ''/''"
    using cd_keeps_current_dir_in_sync [where e = cd_env and ?a0.0 = "''cd''"]
    by (simp add: cd_env_def example_env_def)
  have t: "cd_target cd_env [''cd'', ''/nonexistent''] = Inr ''/nonexistent''"
    by (simp add: cd_target_def)
  have c: "sys_chdir cd_env (os_cwd ?s) ''/nonexistent'' = Inl ''No such file or directory''"
    by (simp add: cd_env_def example_env_def)
  from cd_keeps_current_dir_in_sync
    [where e = cd_env and ?a0.0 = "''cd''" and args = "[''/nonexistent'']" and s = ?s] t c
  have bad: "?bad = (EXIT_FAILURE, ?s\<lparr>err := err ?s @ [COLOR_RED @ ''Error:'' @ COLOR_RESET
      @ '' cd: '' @ ''/nonexistent'' @ '': '' @ ''No such file or directory'' @ [CHR 0x0A]]\<rparr>)"
    by blast
  have t2: "cd_target cd_env [''cd'', ''/tmp''] = Inr ''/tmp''"
    by (simp add: cd_target_def)
  have c2: "sys_chdir cd_env (os_cwd ?s) ''/tmp'' = Inr ''/tmp''"
    by (simp add: cd_env_def example_env_def)
  have g2: "getcwd_error cd_env ''/tmp'' = None"
    by (simp add: cd_env_def example_env_def)
  have l2: "length ''/tmp'' < MAX_PATH_LENGTH"
    by (simp add: MAX_PATH_LENGTH_def)
  from cd_keeps_current_dir_in_sync
    [where e = cd_env and ?a0.0 = "''cd''" and args = "[''/tmp'']" and s = ?s
       and args' = "[''pwd'']"] t2 c2 g2 l2
  have good: "?good = (EXIT_SUCCESS, ?s\<lparr>os_cwd := ''/tmp'', current_dir := ''/tmp''\<rparr>)"
    and pwd: "cmd_pwd (?s\<lparr>os_cwd := ''/tmp'', current_dir := ''/tmp''\<rparr>) [''pwd''] =
       (EXIT_SUCCESS, ?s\<lparr>os_cwd := ''/tmp'', current_dir := ''/tmp'',
                          out := out ?s @ [''/tmp'' @ [CHR 0x0A]]\<rparr>)"
    by blast+
  from cd_keeps_current_dir_in_sync
    [where e = cd_env and ?a0.0 = "''cd''" and args = "[''/tmp'']" and s = ?s
       and args' = "[''pwd'']"] good
  have sync: "current_dir (snd ?good) = os_cwd (snd ?good)"
    by simp
  have t3: "cd_target deep_env [''cd'', ''sub''] = Inr ''sub''"
    by (simp add: cd_target_def)
  have c3: "sys_chdir deep_env (os_cwd (initial_shell deep_dir)) ''sub'' = Inr (deep_dir @ ''/sub'')"
    by (simp add: deep_env_def example_env_def initial_shell_def)
  have g3: "sys_getcwd deep_env (deep_dir @ ''/sub'') MAX_PATH_LENGTH
            = Inl ''Numerical result out of range''"
    by (simp add: sys_getcwd_def deep_env_def example_env_def deep_dir_length MAX_PATH_LENGTH_def)
  from cd_keeps_current_dir_in_sync
    [where e = deep_env and ?a0.0 = "''cd''" and args = "[''sub'']" and s = "initial_shell deep_dir"]
    t3 c3 g3
  have deep: "?deep = (EXIT_FAILURE,
      (initial_shell deep_dir)\<lparr>os_cwd := deep_dir @ ''/sub'', current_dir := getcwd_junk deep_env,
        err := err (initial_shell deep_dir) @ [COLOR_RED @ ''Error:'' @ COLOR_RESET @ '' getcwd: ''
                        @ ''Numerical result out of range'' @ [CHR 0x0A]]\<rparr>)"
    by blast
  from none have r0: "fst ?none = EXIT_FAILURE"
    by simp
  from none have r0': "current_dir (snd ?none) = ''/home''"
    by (simp add: initial_shell_def)
  from bad have r1: "fst ?bad = EXIT_FAILURE"
    by simp
  from bad have r2: "current_dir (snd ?bad) = ''/home''"
    by (simp add: initial_shell_def)
  from good have r3: "fst ?good = EXIT_SUCCESS"
    by simp
  from good have r3': "os_cwd (snd ?good) = ''/tmp''"
    by simp
  from sync r3' have r4: "current_dir (snd ?good) = ''/tmp''"
    by simp
  have r5: "out (snd (cmd_pwd (snd ?good) [''pwd''])) = [''/tmp'' @ [CHR 0x0A]]"
    unfolding good using pwd by (simp add: initial_shell_def)
  from deep have r6: "fst ?deep = EXIT_FAILURE"
    by simp
  from deep have r7: "os_cwd (snd ?deep) = deep_dir @ ''/sub''"
    by simp
  from deep have r8: "current_dir (snd ?deep) = deep_dir"
    by (simp add: deep_env_def)
  from n r0 r0' h c r1 r2 c2 r3 r3' r4 r5 c3 g3 r6 r7 r8 show ?thesis
    by (intro conjI)
qed

section \<open>The path search\<close>

lemma total_len_loop_sum:
  "total_len_loop n sps = n + sum_list (map (\<lambda>sp. length sp + 1) sps)"
  by (induction sps arbitrary: n) auto

lemma strcat_loop_concat:
  "strcat_loop e p sps = p @ concat (map (\<lambda>sp. '':'' @ expand_entry e sp) sps)"
  by (induction sps arbitrary: p) auto

lemma new_path_length:
  "length (strcat_loop e p standard_paths) =
     total_len_loop (length p) standard_paths
     + (case env_HOME e of None \<Rightarrow> 0 | Some home \<Rightarrow> length home) 
     - (case env_HOME e of None \<Rightarrow> 0 | Some home \<Rightarrow> 1)"
  by (simp add: strcat_loop_concat total_len_loop_sum standard_paths_def expand_entry_def
      split: option.splits)

lemma find_command_overflow:
  assumes "CHR ''/'' \<notin> set cmd" and "env_HOME e = Some home" and "1 < length home"
  shows "find_command e cwd cmd = Inl HeapOverflow"
  using assms by (simp add: find_command_def Let_def new_path_length)

lemma split_acc_append:
  assumes "d \<in> set delims"
  shows "split_acc delims cur (a @ d # b) = split_acc delims cur a @ split_acc delims [] b"
  using assms by (induction a arbitrary: cur) auto

lemma split_on_append:
  assumes "d \<in> set delims"
  shows "split_on delims (a @ d # b) = split_on delims a @ split_on delims b"
  using assms by (simp add: split_on_def split_acc_append)

lemma split_on_entries:
  "split_on '':'' (p @ concat (map (\<lambda>sp. CHR '':'' # f sp) sps)) =
   split_on '':'' p @ concat (map (\<lambda>sp. split_on '':'' (f sp)) sps)"
proof (induction sps arbitrary: p)
  case Nil
  then show ?case by simp
next
  case (Cons sp sps)
  have "split_on '':'' (p @ concat (map (\<lambda>sp. CHR '':'' # f sp) (sp # sps))) =
        split_on '':'' ((p @ CHR '':'' # f sp) @ concat (map (\<lambda>sp. CHR '':'' # f sp) sps))"
    by simp
  also have "\<dots> = split_on '':'' (p @ CHR '':'' # f sp)
                   @ concat (map (\<lambda>sp. split_on '':'' (f sp)) sps)"
    by (rule Cons.IH)
  also have "split_on '':'' (p @ CHR '':'' # f sp) = split_on '':'' p @ split_on '':'' (f sp)"
    by (rule split_on_append) simp
  finally show ?case by simp
qed

lemma search_loop_find:
  "search_loop e cwd cmd rest =
     map_option (\<lambda>dir. full_path dir cmd)
       (find (\<lambda>dir. access_X_OK e cwd (full_path dir cmd)) (split_on '':'' rest))"
proof (induction e cwd cmd rest rule: search_loop.induct)
  case (1 e cwd cmd rest)
  show ?case
  proof (cases "strtok '':'' rest")
    case None
    then show ?thesis
      by (simp add: search_loop.simps [of e cwd cmd rest] strtok_None_split)
  next
    case (Some p)
    obtain dir rest' where p: "p = (dir, rest')"
      by (cases p)
    with 1 Some show ?thesis
      by (simp add: search_loop.simps [of e cwd cmd rest] strtok_Some_split)
  qed
qed

lemma find_command_search_order:
  assumes "CHR ''/'' \<notin> set cmd"
    and "env_HOME e = None \<or> (\<exists>home. env_HOME e = Some home \<and> length home \<le> 1)"
  shows "find_command e cwd cmd =
         Inr (map_option (\<lambda>dir. full_path dir cmd)
                (find (\<lambda>dir. access_X_OK e cwd (full_path dir cmd)) (search_dirs e)))"
proof -
  let ?path = "case env_PATH e of None \<Rightarrow> ''/bin:/usr/bin'' | Some path_env \<Rightarrow> path_env"
  from assms(2) have "\<not> length (strcat_loop e ?path standard_paths)
                        > total_len_loop (length ?path) standard_paths"
    by (auto simp: new_path_length)
  with assms(1) have "find_command e cwd cmd =
      Inr (search_loop e cwd cmd (strcat_loop e ?path standard_paths))"
    by (simp add: find_command_def Let_def)
  moreover have "split_on '':'' (strcat_loop e ?path standard_paths) = search_dirs e"
    using split_on_entries [of ?path "expand_entry e" standard_paths]
    by (simp add: strcat_loop_concat search_dirs_def)
  ultimately show ?thesis
    by (simp add: search_loop_find)
qed

lemma find_skip_prefix:
  assumes "\<forall>x \<in> set xs. \<not> P x"
  shows "find P (xs @ ys) = find P ys"
  using assms by (induction xs) auto

lemma find_command_first_directory:
  assumes "CHR ''/'' \<notin> set cmd"
    and "env_HOME e = None \<or> (\<exists>home. env_HOME e = Some home \<and> length home \<le> 1)"
    and "search_dirs e = before @ dir # after"
    and "\<forall>d \<in> set before. \<not> access_X_OK e cwd (full_path d cmd)"
    and "access_X_OK e cwd (full_path dir cmd)"
  shows "find_command e cwd cmd = Inr (Some (full_path dir cmd))"
proof -
  from assms(3,4,5)
  have "find (\<lambda>d. access_X_OK e cwd (full_path d cmd)) (search_dirs e) = Some dir"
    by (simp add: find_skip_prefix)
  with find_command_search_order [OF assms(1,2), of cwd] show ?thesis
    by simp
qed

lemma find_command_slash:
  assumes "CHR ''/'' \<in> set cmd"
  shows "find_command e cwd cmd = Inr (if access_X_OK e cwd cmd then Some cmd else None)"
  using assms by (simp add: find_command_def)

text \<open>
  C9. Where \<open>find_command\<close> stays inside its buffer it does what the claim says:
  a name with a slash is tested and returned as it is, and a bare name is looked up in
  the search list in order, the first executable candidate being returned (the lemmas
  above). But the buffer for the search list is sized from \<open>~/.local/bin\<close> as
  written, while \<open>strcat\<close> appends \<open>HOME\<close> in place of the \<open>~\<close>: with a \<open>HOME\<close>
  of more than one byte the string is longer than the buffer. For \<open>PATH=/usr/bin\<close> and
  \<open>HOME=/root\<close> the buffer has room for 66 bytes and the terminating NUL, and 70 bytes
  and the NUL are written.
\<close>

theorem find_command_overflows_with_home:
  "total_len_loop (length ''/usr/bin'') standard_paths = 66
   \<and> length (strcat_loop root_env ''/usr/bin'' standard_paths) = 70
   \<and> find_command root_env ''/'' ''ls'' = Inl HeapOverflow"
  by code_simp

lemma search_dirs_example:
  "search_dirs (example_env [] 0) =
   [''/bin'', ''/bin'', ''/sbin'', ''/usr/bin'', ''/usr/sbin'', ''/usr/local/bin'', ''~/.local/bin'']"
  by code_simp

section \<open>The job table and the sweep\<close>

lemma add_job_appends:
  assumes "length (jobs (config s)) < MAX_ARGS"
  shows "add_job pid command s =
         s\<lparr>config := (config s)\<lparr>jobs := jobs (config s) @
            [\<lparr>job_pid = pid, job_command = command, job_status = 0, job_running = 1\<rparr>]\<rparr>\<rparr>"
  using assms by (simp add: add_job_def)

lemma add_job_at_capacity:
  assumes "length (jobs (config s)) \<ge> MAX_ARGS"
  shows "add_job pid command s = print_error ''Maximum number of background jobs reached'' s"
  using assms by (simp add: add_job_def)

lemma update_job_step:
  assumes "job_running (jobs (config s) ! i) \<noteq> 0 \<longrightarrow> 0 < job_pid (jobs (config s) ! i)"
    and "i < length (jobs (config s))"
  shows "\<exists>s'. update_job i s = Inr s'
           \<and> length (jobs (config s')) = length (jobs (config s))
           \<and> (\<forall>j. j \<noteq> i \<longrightarrow> jobs (config s') ! j = jobs (config s) ! j)
           \<and> job_pid (jobs (config s') ! i) = job_pid (jobs (config s) ! i)
           \<and> job_command (jobs (config s') ! i) = job_command (jobs (config s) ! i)
           \<and> (job_running (jobs (config s) ! i) = 0 \<longrightarrow> jobs (config s') ! i = jobs (config s) ! i)
           \<and> (job_running (jobs (config s') ! i) = 0 \<or> 
               job_running (jobs (config s') ! i) = job_running (jobs (config s) ! i))
           \<and> (\<forall>q. q \<noteq> job_pid (jobs (config s) ! i) \<or> job_running (jobs (config s) ! i) = 0
                  \<longrightarrow> children s' q = children s q)
           \<and> (\<forall>st. job_running (jobs (config s) ! i) \<noteq> 0
                  \<and> children s (job_pid (jobs (config s) ! i)) = ChildTerminated st
                  \<longrightarrow> jobs (config s') ! i =
                       (jobs (config s) ! i)\<lparr>job_running := 0, job_status := WEXITSTATUS st\<rparr>)"
  using assms
  by (cases "children s (job_pid (jobs (config s) ! i))")
    (auto simp: update_job_def Let_def waitpid_nohang_def printf_def)

lemma sweep_total:
  assumes "\<forall>j < length (jobs (config s)).
             job_running (jobs (config s) ! j) \<noteq> 0 \<longrightarrow> 0 < job_pid (jobs (config s) ! j)"
  shows "\<exists>s'. update_jobs_loop i s = Inr s'
           \<and> length (jobs (config s')) = length (jobs (config s))
           \<and> (\<forall>j < length (jobs (config s)).
                  job_pid (jobs (config s') ! j) = job_pid (jobs (config s) ! j)
                  \<and> job_command (jobs (config s') ! j) = job_command (jobs (config s) ! j))
           \<and> (\<forall>j < i. jobs (config s') ! j = jobs (config s) ! j)"
  using assms
proof (induction i s rule: update_jobs_loop.induct)
  case (1 i s)
  show ?case
  proof (cases "i < length (jobs (config s))")
    case False
    then show ?thesis
      by (simp add: update_jobs_loop.simps [of i s])
  next
    case True
    with "1.prems" have "job_running (jobs (config s) ! i) \<noteq> 0 \<longrightarrow> 0 < job_pid (jobs (config s) ! i)"
      by simp
    from update_job_step [OF this True] obtain s1 where
      s1: "update_job i s = Inr s1"
      and len: "length (jobs (config s1)) = length (jobs (config s))"
      and other: "\<forall>j. j \<noteq> i \<longrightarrow> jobs (config s1) ! j = jobs (config s) ! j"
      and pid: "job_pid (jobs (config s1) ! i) = job_pid (jobs (config s) ! i)"
      and cmd: "job_command (jobs (config s1) ! i) = job_command (jobs (config s) ! i)"
      and run: "job_running (jobs (config s1) ! i) = 0 \<or>
                job_running (jobs (config s1) ! i) = job_running (jobs (config s) ! i)"
      by blast
    have pos1: "\<forall>j < length (jobs (config s1)).
             job_running (jobs (config s1) ! j) \<noteq> 0 \<longrightarrow> 0 < job_pid (jobs (config s1) ! j)"
    proof (intro allI impI)
      fix j
      assume "j < length (jobs (config s1))" and "job_running (jobs (config s1) ! j) \<noteq> 0"
      with "1.prems" len other pid run show "0 < job_pid (jobs (config s1) ! j)"
        by (cases "j = i") auto
    qed
    from "1.IH" [OF True s1 pos1] obtain s' where
      s': "update_jobs_loop (i + 1) s1 = Inr s'"
      and len': "length (jobs (config s')) = length (jobs (config s1))"
      and same': "\<forall>j < length (jobs (config s1)).
                  job_pid (jobs (config s') ! j) = job_pid (jobs (config s1) ! j)
                  \<and> job_command (jobs (config s') ! j) = job_command (jobs (config s1) ! j)"
      and before': "\<forall>j < i + 1. jobs (config s') ! j = jobs (config s1) ! j"
      by blast
    have "update_jobs_loop i s = Inr s'"
      using True s1 s' by (simp add: update_jobs_loop.simps [of i s])
    moreover have "\<forall>j < length (jobs (config s)).
                  job_pid (jobs (config s') ! j) = job_pid (jobs (config s) ! j)
                  \<and> job_command (jobs (config s') ! j) = job_command (jobs (config s) ! j)"
    proof (intro allI impI)
      fix j
      assume "j < length (jobs (config s))"
      with same' len other pid cmd
      show "job_pid (jobs (config s') ! j) = job_pid (jobs (config s) ! j)
            \<and> job_command (jobs (config s') ! j) = job_command (jobs (config s) ! j)"
        by (cases "j = i") auto
    qed
    moreover have "\<forall>j < i. jobs (config s') ! j = jobs (config s) ! j"
      using before' other by auto
    ultimately show ?thesis
      using len len' by auto
  qed
qed

lemma sweep_marks:
  assumes "\<forall>j < length (jobs (config s)).
             job_running (jobs (config s) ! j) \<noteq> 0 \<longrightarrow> 0 < job_pid (jobs (config s) ! j)"
    and "i \<le> k" and "k < length (jobs (config s))"
    and "job_running (jobs (config s) ! k) \<noteq> 0"
    and "children s (job_pid (jobs (config s) ! k)) = ChildTerminated st"
    and "\<forall>j < length (jobs (config s)). j \<noteq> k \<longrightarrow> job_running (jobs (config s) ! j) \<noteq> 0 \<longrightarrow>
             job_pid (jobs (config s) ! j) \<noteq> job_pid (jobs (config s) ! k)"
  shows "\<exists>s'. update_jobs_loop i s = Inr s'
           \<and> jobs (config s') ! k =
               (jobs (config s) ! k)\<lparr>job_running := 0, job_status := WEXITSTATUS st\<rparr>"
  using assms
proof (induction i s rule: update_jobs_loop.induct)
  case (1 i s)
  from "1.prems"(2,3) have True: "i < length (jobs (config s))"
    by simp
  with "1.prems"(1)
  have "job_running (jobs (config s) ! i) \<noteq> 0 \<longrightarrow> 0 < job_pid (jobs (config s) ! i)"
    by simp
  from update_job_step [OF this True] obtain s1 where
    s1: "update_job i s = Inr s1"
    and len: "length (jobs (config s1)) = length (jobs (config s))"
    and other: "\<forall>j. j \<noteq> i \<longrightarrow> jobs (config s1) ! j = jobs (config s) ! j"
    and pid: "job_pid (jobs (config s1) ! i) = job_pid (jobs (config s) ! i)"
    and run: "job_running (jobs (config s1) ! i) = 0 \<or>
              job_running (jobs (config s1) ! i) = job_running (jobs (config s) ! i)"
    and ch: "\<forall>q. q \<noteq> job_pid (jobs (config s) ! i) \<or> job_running (jobs (config s) ! i) = 0
                \<longrightarrow> children s1 q = children s q"
    and reap: "\<forall>st. job_running (jobs (config s) ! i) \<noteq> 0
                  \<and> children s (job_pid (jobs (config s) ! i)) = ChildTerminated st
                  \<longrightarrow> jobs (config s1) ! i =
                       (jobs (config s) ! i)\<lparr>job_running := 0, job_status := WEXITSTATUS st\<rparr>"
    by blast
  have pos1: "\<forall>j < length (jobs (config s1)).
           job_running (jobs (config s1) ! j) \<noteq> 0 \<longrightarrow> 0 < job_pid (jobs (config s1) ! j)"
  proof (intro allI impI)
    fix j
    assume "j < length (jobs (config s1))" and "job_running (jobs (config s1) ! j) \<noteq> 0"
    with "1.prems"(1) len other pid run show "0 < job_pid (jobs (config s1) ! j)"
      by (cases "j = i") auto
  qed
  have loop: "update_jobs_loop i s = update_jobs_loop (i + 1) s1"
    using True s1 by (simp add: update_jobs_loop.simps [of i s])
  show ?case
  proof (cases "i = k")
    case True
    with reap "1.prems"(4,5)
    have k: "jobs (config s1) ! k =
             (jobs (config s) ! k)\<lparr>job_running := 0, job_status := WEXITSTATUS st\<rparr>"
      by blast
    from sweep_total [OF pos1, of "i + 1"] obtain s' where
      "update_jobs_loop (i + 1) s1 = Inr s'"
      and "\<forall>j < i + 1. jobs (config s') ! j = jobs (config s1) ! j"
      by blast
    with True k loop show ?thesis
      by auto
  next
    case False
    with "1.prems"(2) have ik: "i + 1 \<le> k"
      by simp
    from False other have same: "jobs (config s1) ! k = jobs (config s) ! k"
      by simp
    from False True "1.prems"(6)
    have "job_running (jobs (config s) ! i) \<noteq> 0 \<longrightarrow>
          job_pid (jobs (config s) ! i) \<noteq> job_pid (jobs (config s) ! k)"
      by simp
    with ch have chk: "children s1 (job_pid (jobs (config s) ! k))
                       = children s (job_pid (jobs (config s) ! k))"
      by auto
    have uniq1: "\<forall>j < length (jobs (config s1)). j \<noteq> k \<longrightarrow>
             job_running (jobs (config s1) ! j) \<noteq> 0 \<longrightarrow>
             job_pid (jobs (config s1) ! j) \<noteq> job_pid (jobs (config s1) ! k)"
    proof (intro allI impI)
      fix j
      assume "j < length (jobs (config s1))" and "j \<noteq> k"
        and "job_running (jobs (config s1) ! j) \<noteq> 0"
      with "1.prems"(6) len other pid run same
      show "job_pid (jobs (config s1) ! j) \<noteq> job_pid (jobs (config s1) ! k)"
        by (cases "j = i") auto
    qed
    from "1.IH" [OF True s1 pos1 ik] "1.prems"(3,4,5) len same chk uniq1
    obtain s' where "update_jobs_loop (i + 1) s1 = Inr s'"
      and "jobs (config s') ! k =
           (jobs (config s1) ! k)\<lparr>job_running := 0, job_status := WEXITSTATUS st\<rparr>"
      by auto
    with loop same show ?thesis
      by auto
  qed
qed

lemma map_update_same:
  "(map f xs)[i := f (xs ! i)] = map f xs"
proof (cases "i < length xs")
  case True
  then have "(map f xs)[i := map f xs ! i] = map f xs"
    by (simp only: list_update_id)
  with True show ?thesis
    by simp
next
  case False
  then have "length (map f xs) \<le> i"
    by simp
  then show ?thesis
    by (rule list_update_beyond)
qed

lemma update_jobs_keeps_entries:
  assumes "update_jobs_loop i s = Inr s'"
  shows "length (jobs (config s')) = length (jobs (config s))
         \<and> map job_pid (jobs (config s')) = map job_pid (jobs (config s))
         \<and> map job_command (jobs (config s')) = map job_command (jobs (config s))"
  using assms
proof (induction i s rule: update_jobs_loop.induct)
  case (1 i s)
  show ?case
  proof (cases "i < length (jobs (config s))")
    case False
    with "1.prems" show ?thesis
      by (simp add: update_jobs_loop.simps [of i s])
  next
    case True
    with "1.prems" obtain s1 where s1: "update_job i s = Inr s1"
      and l: "update_jobs_loop (i + 1) s1 = Inr s'"
      by (auto simp: update_jobs_loop.simps [of i s] split: sum.splits)
    from s1 have "length (jobs (config s1)) = length (jobs (config s))
         \<and> map job_pid (jobs (config s1)) = map job_pid (jobs (config s))
         \<and> map job_command (jobs (config s1)) = map job_command (jobs (config s))"
      by (auto simp: update_job_def Let_def printf_def map_update map_update_same
          split: if_splits option.splits wait_result.splits)
    with "1.IH" [OF True s1 l] show ?thesis
      by simp
  qed
qed

lemma WEXITSTATUS_exit_code:
  assumes "0 \<le> code" and "code < 256"
  shows "WEXITSTATUS (code * 256) = code" and "WIFEXITED (code * 256)"
  using assms by (simp_all add: WEXITSTATUS_def WIFEXITED_def)

section \<open>What the dispatch does with the parsed words\<close>

lemma execute_builtin_status:
  assumes "w \<in> set builtin_names"
  shows "fst (execute_builtin e s (w # rest)) \<noteq> EXIT_NOT_FOUND"
  using assms
  by (auto simp: execute_builtin_def builtin_names_def cmd_cd_def cmd_pwd_def cmd_exit_def
      cmd_clear_def cmd_help_def cmd_history_def cmd_alias_def
      EXIT_NOT_FOUND_def EXIT_SUCCESS_def EXIT_FAILURE_def
      split: sum.splits option.splits)

lemma add_to_history_nonempty:
  assumes "parse_command line = w # rest"
  shows "add_to_history line s = s\<lparr>history := history s @ [line]\<rparr>"
proof -
  from assms have "line \<noteq> []"
    using parse_command_empty by auto
  then show ?thesis
    by (simp add: add_to_history_def)
qed

lemma execute_command_builtin:
  assumes "parse_command line = w # rest"
    and "get_alias w s = None"
    and "w \<in> set builtin_names"
  shows "execute_command e s line =
         Inr (execute_builtin e (s\<lparr>history := history s @ [line]\<rparr>) (w # rest))"
proof -
  have "execute_command e s line = run_args e (add_to_history line s) (w # rest)"
    using assms(1,2) by (rule execute_command_no_alias)
  then show ?thesis
    using execute_builtin_status [OF assms(3), of e "s\<lparr>history := history s @ [line]\<rparr>" rest]
    by (simp add: run_args_def add_to_history_nonempty [OF assms(1)] split: prod.splits)
qed

lemma execute_command_external:
  assumes "parse_command line = w # rest"
    and "get_alias w s = None"
    and "w \<notin> set builtin_names"
  shows "execute_command e s line =
         execute_external e (s\<lparr>history := history s @ [line]\<rparr>) (w # rest)"
proof -
  have "execute_command e s line = run_args e (add_to_history line s) (w # rest)"
    using assms(1,2) by (rule execute_command_no_alias)
  then show ?thesis
    using assms(3)
    by (simp add: run_args_def execute_builtin_not_builtin add_to_history_nonempty [OF assms(1)])
qed

lemma execute_command_runs_program:
  assumes "parse_command line = w # rest"
    and "get_alias w s = None"
    and "w \<notin> set builtin_names"
    and "find_command e (os_cwd s) w = Inr (Some p)"
    and "sys_spawn e p (w # rest) = Runs sts"
    and "wait_loop sts = Some st"
  shows "execute_command e s line =
         Inr (if WIFEXITED st then WEXITSTATUS st else EXIT_FAILURE,
              s\<lparr>history := history s @ [line],
                execv_calls := execv_calls s @ [(p, w # rest)]\<rparr>)"
  using execute_command_external [OF assms(1,2,3), of e] assms(4,5,6)
  by (simp add: execute_external_def)

lemma execute_command_blocks:
  assumes "parse_command line = w # rest"
    and "get_alias w s = None"
    and "w \<notin> set builtin_names"
    and "find_command e (os_cwd s) w = Inr (Some p)"
    and "sys_spawn e p (w # rest) = Runs sts"
    and "wait_loop sts = None"
  shows "execute_command e s line = Inl WaitsForever"
  using execute_command_external [OF assms(1,2,3), of e] assms(4,5,6)
  by (simp add: execute_external_def)

lemma line_words_cons:
  assumes "plain_word w"
  shows "line_words (w @ '' '' @ text) = w # line_words text"
proof -
  from assms have "split_acc parse_delims [] (w @ '' '' @ text)
                   = split_acc parse_delims ([] @ w) ('' '' @ text)"
    by (intro split_acc_word) (simp add: plain_word_def)
  with assms show ?thesis
    by (simp add: line_words_def split_on_def plain_word_def parse_delims_def)
qed

lemma alias_step_length:
  assumes "length args \<le> MAX_ARGS - 1"
  shows "length (alias_step s args) \<le> MAX_ARGS - 1"
  using assms
  by (auto simp: alias_step_def parse_command_words split: list.splits option.splits)

text \<open>
  C10. For every input line the parsed argument vector has at most 511 entries
  (\<open>MAX_ARGS - 1\<close>), so that its terminating NULL fits into the \<open>MAX_ARGS\<close> slots
  allocated; it consists of the first 511 whitespace-separated words of the line, the
  later ones being dropped. The parser has no access to the streams, so the dropping is
  silent. The vector that is dispatched has at most 511 entries also when the first word
  is an alias. When the first word is no alias, the truncated vector itself is what the
  handler of a built-in receives and what a started program gets as its argument vector.
\<close>

theorem parse_command_at_most_511_words:
  "length (parse_command line) \<le> 511
   \<and> length (parse_command line) + 1 \<le> MAX_ARGS
   \<and> parse_command line = take 511 (line_words line)
   \<and> length (alias_step s (parse_command line)) \<le> 511
   \<and> (\<forall>w rest.
         take 511 (line_words line) = w # rest \<and> get_alias w s = None
         \<and> w \<in> set builtin_names \<longrightarrow>
         execute_command e s line =
           Inr (if w = ''cd'' then cmd_cd e (s\<lparr>history := history s @ [line]\<rparr>) (w # rest)
                else if w = ''pwd'' then cmd_pwd (s\<lparr>history := history s @ [line]\<rparr>) (w # rest)
                else if w = ''exit'' then cmd_exit (s\<lparr>history := history s @ [line]\<rparr>) (w # rest)
                else if w = ''clear'' then cmd_clear (s\<lparr>history := history s @ [line]\<rparr>) (w # rest)
                else if w = ''help'' then cmd_help (s\<lparr>history := history s @ [line]\<rparr>) (w # rest)
                else if w = ''history''
                  then cmd_history (s\<lparr>history := history s @ [line]\<rparr>) (w # rest)
                else cmd_alias (s\<lparr>history := history s @ [line]\<rparr>) (w # rest)))
   \<and> (\<forall>w rest p sts st.
         take 511 (line_words line) = w # rest \<and> get_alias w s = None
         \<and> w \<notin> set builtin_names \<and> find_command e (os_cwd s) w = Inr (Some p)
         \<and> sys_spawn e p (w # rest) = Runs sts \<and> wait_loop sts = Some st \<longrightarrow>
         execute_command e s line =
           Inr (if WIFEXITED st then WEXITSTATUS st else EXIT_FAILURE,
                s\<lparr>history := history s @ [line],
                  execv_calls := execv_calls s @ [(p, w # rest)]\<rparr>))"
proof -
  have p: "parse_command line = take 511 (line_words line)"
    by (simp add: parse_command_words MAX_ARGS_def)
  have "length (parse_command line) \<le> MAX_ARGS - 1"
    by (simp add: parse_command_words)
  then have "length (alias_step s (parse_command line)) \<le> MAX_ARGS - 1"
    by (rule alias_step_length)
  then have a: "length (alias_step s (parse_command line)) \<le> 511"
    by (simp add: MAX_ARGS_def)
  have b: "\<forall>w rest.
         take 511 (line_words line) = w # rest \<and> get_alias w s = None
         \<and> w \<in> set builtin_names \<longrightarrow>
         execute_command e s line =
           Inr (if w = ''cd'' then cmd_cd e (s\<lparr>history := history s @ [line]\<rparr>) (w # rest)
                else if w = ''pwd'' then cmd_pwd (s\<lparr>history := history s @ [line]\<rparr>) (w # rest)
                else if w = ''exit'' then cmd_exit (s\<lparr>history := history s @ [line]\<rparr>) (w # rest)
                else if w = ''clear'' then cmd_clear (s\<lparr>history := history s @ [line]\<rparr>) (w # rest)
                else if w = ''help'' then cmd_help (s\<lparr>history := history s @ [line]\<rparr>) (w # rest)
                else if w = ''history''
                  then cmd_history (s\<lparr>history := history s @ [line]\<rparr>) (w # rest)
                else cmd_alias (s\<lparr>history := history s @ [line]\<rparr>) (w # rest))"
  proof (intro allI impI, elim conjE)
    fix w rest
    assume w: "take 511 (line_words line) = w # rest" and "get_alias w s = None"
      and bi: "w \<in> set builtin_names"
    with p have "execute_command e s line =
         Inr (execute_builtin e (s\<lparr>history := history s @ [line]\<rparr>) (w # rest))"
      by (intro execute_command_builtin) simp_all
    with bi show "execute_command e s line =
           Inr (if w = ''cd'' then cmd_cd e (s\<lparr>history := history s @ [line]\<rparr>) (w # rest)
                else if w = ''pwd'' then cmd_pwd (s\<lparr>history := history s @ [line]\<rparr>) (w # rest)
                else if w = ''exit'' then cmd_exit (s\<lparr>history := history s @ [line]\<rparr>) (w # rest)
                else if w = ''clear'' then cmd_clear (s\<lparr>history := history s @ [line]\<rparr>) (w # rest)
                else if w = ''help'' then cmd_help (s\<lparr>history := history s @ [line]\<rparr>) (w # rest)
                else if w = ''history''
                  then cmd_history (s\<lparr>history := history s @ [line]\<rparr>) (w # rest)
                else cmd_alias (s\<lparr>history := history s @ [line]\<rparr>) (w # rest))"
      by (auto simp: execute_builtin_def builtin_names_def)
  qed
  have c: "\<forall>w rest p sts st.
         take 511 (line_words line) = w # rest \<and> get_alias w s = None
         \<and> w \<notin> set builtin_names \<and> find_command e (os_cwd s) w = Inr (Some p)
         \<and> sys_spawn e p (w # rest) = Runs sts \<and> wait_loop sts = Some st \<longrightarrow>
         execute_command e s line =
           Inr (if WIFEXITED st then WEXITSTATUS st else EXIT_FAILURE,
                s\<lparr>history := history s @ [line],
                  execv_calls := execv_calls s @ [(p, w # rest)]\<rparr>)"
    using p execute_command_runs_program [of line _ _ s e] by auto
  from p a b c show ?thesis
    by (simp add: MAX_ARGS_def)
qed

lemma long_echo_line_words:
  "line_words long_echo_line = ''/bin/echo'' # replicate 600 ''a''"
proof -
  have "plain_word ''/bin/echo''"
    by (simp add: plain_word_def parse_delims_def)
  then show ?thesis
    unfolding long_echo_line_def by (simp only: line_words_cons line_words_repeat)
qed

lemma long_alias_line_words:
  "line_words long_alias_line = ''alias'' # ''n=v'' # replicate 600 ''a''"
proof -
  have "plain_word ''alias''" and "plain_word ''n=v''"
    by (simp_all add: plain_word_def parse_delims_def)
  then show ?thesis
    unfolding long_alias_line_def by (simp only: line_words_cons line_words_repeat)
qed

theorem parse_command_at_most_511_words_witness:
  "length (line_words long_echo_line) = 601
   \<and> take 511 (line_words long_echo_line) = ''/bin/echo'' # replicate 510 ''a''
   \<and> \<not> isl (execute_command (home_env [''/bin/echo'']) (initial_shell ''/'') long_echo_line)
   \<and> execv_calls (snd (projr (execute_command (home_env [''/bin/echo'']) (initial_shell ''/'')
         long_echo_line)))
       = [(''/bin/echo'', ''/bin/echo'' # replicate 510 ''a'')]
   \<and> take 511 (line_words long_alias_line) = ''alias'' # ''n=v'' # replicate 509 ''a''
   \<and> \<not> isl (execute_command (home_env []) (initial_shell ''/'') long_alias_line)
   \<and> get_alias ''n'' (snd (projr (execute_command (home_env []) (initial_shell ''/'')
         long_alias_line))) = Some ''v''"
proof -
  let ?s = "initial_shell ''/''"
  let ?e = "home_env [''/bin/echo'']"
  have l: "length (line_words long_echo_line) = 601"
    by (simp add: long_echo_line_words)
  have t: "take 511 (line_words long_echo_line) = ''/bin/echo'' # replicate 510 ''a''"
    by (simp add: long_echo_line_words)
  have na: "get_alias ''/bin/echo'' ?s = None"
    by (simp add: get_alias_def initial_shell_def)
  have nb: "''/bin/echo'' \<notin> set builtin_names"
    by (simp add: builtin_names_def)
  have f: "find_command ?e (os_cwd ?s) ''/bin/echo'' = Inr (Some ''/bin/echo'')"
    by (simp add: find_command_slash home_env_def example_env_def)
  have sp: "sys_spawn ?e ''/bin/echo'' (''/bin/echo'' # replicate 510 ''a'') = Runs [0]"
    by (simp add: home_env_def example_env_def)
  have w: "wait_loop [0] = Some 0"
    by (simp add: WIFEXITED_def)
  from parse_command_at_most_511_words [of long_echo_line ?s ?e] t na nb f sp w
  have r: "execute_command ?e ?s long_echo_line =
           Inr (if WIFEXITED 0 then WEXITSTATUS 0 else EXIT_FAILURE,
                ?s\<lparr>history := history ?s @ [long_echo_line],
                   execv_calls := execv_calls ?s
                     @ [(''/bin/echo'', ''/bin/echo'' # replicate 510 ''a'')]\<rparr>)"
    by blast
  have r1: "\<not> isl (execute_command ?e ?s long_echo_line)"
    unfolding r by simp
  have r2: "execv_calls (snd (projr (execute_command ?e ?s long_echo_line)))
            = [(''/bin/echo'', ''/bin/echo'' # replicate 510 ''a'')]"
    unfolding r by (simp add: initial_shell_def)
  have t': "take 511 (line_words long_alias_line) = ''alias'' # ''n=v'' # replicate 509 ''a''"
    by (simp add: long_alias_line_words)
  have na': "get_alias ''alias'' ?s = None"
    by (simp add: get_alias_def initial_shell_def)
  have b': "''alias'' \<in> set builtin_names"
    by (simp add: builtin_names_def)
  from parse_command_at_most_511_words [of long_alias_line ?s "home_env []"] t' na' b'
  have "execute_command (home_env []) ?s long_alias_line =
        Inr (cmd_alias (?s\<lparr>history := history ?s @ [long_alias_line]\<rparr>)
               (''alias'' # ''n=v'' # replicate 509 ''a''))"
    by auto
  also have "cmd_alias (?s\<lparr>history := history ?s @ [long_alias_line]\<rparr>)
               (''alias'' # ''n=v'' # replicate 509 ''a'') =
             (EXIT_SUCCESS, add_alias ''n'' ''v'' (?s\<lparr>history := history ?s @ [long_alias_line]\<rparr>))"
    by (simp add: cmd_alias_def)
  finally have q: "execute_command (home_env []) ?s long_alias_line =
      Inr (EXIT_SUCCESS, add_alias ''n'' ''v'' (?s\<lparr>history := history ?s @ [long_alias_line]\<rparr>))" .
  have q1: "\<not> isl (execute_command (home_env []) ?s long_alias_line)"
    unfolding q by simp
  have q2: "get_alias ''n'' (snd (projr (execute_command (home_env []) ?s long_alias_line)))
            = Some ''v''"
    unfolding q
    by (simp add: get_alias_def add_alias_def initial_shell_def MAX_ALIASES_def)
  from l t r1 r2 t' q1 q2 show ?thesis
    by (intro conjI)
qed

section \<open>Redirection tokens and the background marker\<close>

text \<open>
  C1, as the claim states it, fails: for the line \<open>ls -la > out.txt\<close> the words are
  \<open>ls\<close>, \<open>-la\<close>, \<open>>\<close> and \<open>out.txt\<close>, and all four are the argument vector of the
  program that is started.
\<close>

theorem redirection_not_removed_counterexample:
  "parse_command ''ls -la > out.txt'' = [''ls'', ''-la'', ''>'', ''out.txt'']
   \<and> parse_command ''ls -la > out.txt'' \<noteq> [''ls'', ''-la'']
   \<and> execv_calls (snd (projr (execute_command (example_env [''/bin/ls''] 0)
         (initial_shell ''/'') ''ls -la > out.txt'')))
       = [(''/bin/ls'', [''ls'', ''-la'', ''>'', ''out.txt''])]"
  by code_simp

text \<open>
  C1, amended. The tokenizer only splits at whitespace: in a line of at most 511 words, a
  redirection token among \<open><\<close>, \<open>>\<close>, \<open>>>\<close>, \<open>2>\<close>, \<open>2>>\<close> and the word
  after it stay in the word sequence, in place. When the first word of the line is neither
  an alias nor a built-in, \<open>find_command\<close> returns a path for it and the program runs to
  its end, that program has been started with the whole word sequence, both tokens
  included, as its argument vector.
\<close>

theorem redirection_tokens_stay_in_words:
  assumes "tok \<in> set [''<'', ''>'', ''>>'', ''2>'', ''2>>'']"
    and "line_words line = before @ tok # file # after"
    and "length (line_words line) \<le> MAX_ARGS - 1"
  shows "parse_command line = before @ tok # file # after
         \<and> (\<forall>w rest p sts st.
               before @ tok # file # after = w # rest \<and> get_alias w s = None
               \<and> w \<notin> set builtin_names \<and> find_command e (os_cwd s) w = Inr (Some p)
               \<and> sys_spawn e p (w # rest) = Runs sts \<and> wait_loop sts = Some st \<longrightarrow>
               execute_command e s line =
                 Inr (if WIFEXITED st then WEXITSTATUS st else EXIT_FAILURE,
                      s\<lparr>history := history s @ [line],
                        execv_calls := execv_calls s @ [(p, before @ tok # file # after)]\<rparr>))"
proof -
  from assms(2,3) have p: "parse_command line = before @ tok # file # after"
    by (simp add: parse_command_words)
  then show ?thesis
    using execute_command_runs_program [of line _ _ s e] by auto
qed

theorem redirection_tokens_stay_in_words_witness:
  "''>'' \<in> set [''<'', ''>'', ''>>'', ''2>'', ''2>>'']
   \<and> line_words (''/usr/bin/ls  -la'' @ [CHR 0x09] @ ''> out.txt'')
       = [''/usr/bin/ls'', ''-la''] @ ''>'' # ''out.txt'' # []
   \<and> parse_command (''/usr/bin/ls  -la'' @ [CHR 0x09] @ ''> out.txt'')
       = [''/usr/bin/ls'', ''-la'', ''>'', ''out.txt'']
   \<and> \<not> isl (execute_command (home_env [''/usr/bin/ls'']) (initial_shell ''/'')
               (''/usr/bin/ls  -la'' @ [CHR 0x09] @ ''> out.txt''))
   \<and> execv_calls (snd (projr (execute_command (home_env [''/usr/bin/ls'']) (initial_shell ''/'')
         (''/usr/bin/ls  -la'' @ [CHR 0x09] @ ''> out.txt''))))
       = [(''/usr/bin/ls'', [''/usr/bin/ls'', ''-la'', ''>'', ''out.txt''])]"
proof -
  let ?line = "''/usr/bin/ls  -la'' @ [CHR 0x09] @ ''> out.txt''"
  let ?s = "initial_shell ''/''"
  let ?e = "home_env [''/usr/bin/ls'']"
  have h1: "''>'' \<in> set [''<'', ''>'', ''>>'', ''2>'', ''2>>'']"
    by simp
  have h2: "line_words ?line = [''/usr/bin/ls'', ''-la''] @ ''>'' # ''out.txt'' # []"
    by (simp add: line_words_def split_on_def parse_delims_def)
  have h3: "length (line_words ?line) \<le> MAX_ARGS - 1"
    unfolding h2 by (simp add: MAX_ARGS_def)
  have na: "get_alias ''/usr/bin/ls'' ?s = None"
    by (simp add: get_alias_def initial_shell_def)
  have nb: "''/usr/bin/ls'' \<notin> set builtin_names"
    by (simp add: builtin_names_def)
  have f: "find_command ?e (os_cwd ?s) ''/usr/bin/ls'' = Inr (Some ''/usr/bin/ls'')"
    by (simp add: find_command_slash home_env_def example_env_def)
  have sp: "sys_spawn ?e ''/usr/bin/ls'' [''/usr/bin/ls'', ''-la'', ''>'', ''out.txt''] = Runs [0]"
    by (simp add: home_env_def example_env_def)
  have w: "wait_loop [0] = Some 0"
    by (simp add: WIFEXITED_def)
  from redirection_tokens_stay_in_words [OF h1 h2 h3, of ?s ?e] na nb f sp w
  have p: "parse_command ?line = [''/usr/bin/ls'', ''-la'', ''>'', ''out.txt'']"
    and r: "execute_command ?e ?s ?line =
            Inr (if WIFEXITED 0 then WEXITSTATUS 0 else EXIT_FAILURE,
                 ?s\<lparr>history := history ?s @ [?line],
                    execv_calls := execv_calls ?s
                      @ [(''/usr/bin/ls'', [''/usr/bin/ls'', ''-la''] @ ''>'' # ''out.txt'' # [])]\<rparr>)"
    by simp_all
  have r1: "\<not> isl (execute_command ?e ?s ?line)"
    unfolding r by simp
  have r2: "execv_calls (snd (projr (execute_command ?e ?s ?line)))
            = [(''/usr/bin/ls'', [''/usr/bin/ls'', ''-la'', ''>'', ''out.txt''])]"
    unfolding r by (simp add: initial_shell_def)
  from h1 h2 p r1 r2 show ?thesis
    by (intro conjI)
qed

text \<open>
  C2, as the claim states it, fails: for the line \<open>sleep 5 &\<close> the words are
  \<open>sleep\<close>, \<open>5\<close> and \<open>&\<close>; the program is started with all three as its
  argument vector, no job is recorded, and the shell waits for the program (for ever, when
  the program never terminates).
\<close>

theorem background_marker_not_removed_counterexample:
  "parse_command ''sleep 5 &'' = [''sleep'', ''5'', ''&'']
   \<and> parse_command ''sleep 5 &'' \<noteq> [''sleep'', ''5'']
   \<and> execv_calls (snd (projr (execute_command (example_env [''/bin/sleep''] 0)
         (initial_shell ''/'') ''sleep 5 &'')))
       = [(''/bin/sleep'', [''sleep'', ''5'', ''&''])]
   \<and> jobs (config (snd (projr (execute_command (example_env [''/bin/sleep''] 0)
         (initial_shell ''/'') ''sleep 5 &'')))) = []
   \<and> isl (execute_command ((example_env [''/bin/sleep''] 0)\<lparr>sys_spawn := \<lambda>path args. Runs []\<rparr>)
         (initial_shell ''/'') ''sleep 5 &'')
   \<and> projl (execute_command ((example_env [''/bin/sleep''] 0)\<lparr>sys_spawn := \<lambda>path args. Runs []\<rparr>)
         (initial_shell ''/'') ''sleep 5 &'') = WaitsForever"
  by code_simp

text \<open>
  C2, amended. A trailing standalone \<open>&\<close> is an ordinary word: in a line of at most 511
  words it stays the last entry of the word sequence. No dispatched line ever changes the
  job table. When the first word of the line is neither an alias nor a built-in,
  \<open>find_command\<close> returns a path for it and the program runs to its end, the dispatch
  returns after the program has terminated, and the program has been started with the
  whole word sequence, the \<open>&\<close> included, as its argument vector.
\<close>

theorem background_marker_stays_in_words:
  assumes "line_words line = ws @ [''&'']" and "length ws < MAX_ARGS - 1"
  shows "parse_command line = ws @ [''&'']
         \<and> (\<forall>status s'. execute_command e s line = Inr (status, s')
               \<longrightarrow> jobs (config s') = jobs (config s))
         \<and> (\<forall>w rest p sts st.
               ws @ [''&''] = w # rest \<and> get_alias w s = None
               \<and> w \<notin> set builtin_names \<and> find_command e (os_cwd s) w = Inr (Some p)
               \<and> sys_spawn e p (w # rest) = Runs sts \<and> wait_loop sts = Some st \<longrightarrow>
               execute_command e s line =
                 Inr (if WIFEXITED st then WEXITSTATUS st else EXIT_FAILURE,
                      s\<lparr>history := history s @ [line],
                        execv_calls := execv_calls s @ [(p, ws @ [''&''])]\<rparr>))"
proof -
  from assms have p: "parse_command line = ws @ [''&'']"
    by (simp add: parse_command_words)
  have j: "\<forall>status s'. execute_command e s line = Inr (status, s')
               \<longrightarrow> jobs (config s') = jobs (config s)"
    using execute_command_jobs by blast
  from p j show ?thesis
    using execute_command_runs_program [of line _ _ s e] by auto
qed

theorem background_marker_stays_in_words_witness:
  "line_words ''/usr/bin/sleep  5 &'' = [''/usr/bin/sleep'', ''5''] @ [''&'']
   \<and> parse_command ''/usr/bin/sleep  5 &'' = [''/usr/bin/sleep'', ''5'', ''&'']
   \<and> \<not> isl (execute_command (home_env [''/usr/bin/sleep'']) (initial_shell ''/'')
               ''/usr/bin/sleep  5 &'')
   \<and> execv_calls (snd (projr (execute_command (home_env [''/usr/bin/sleep''])
         (initial_shell ''/'') ''/usr/bin/sleep  5 &'')))
       = [(''/usr/bin/sleep'', [''/usr/bin/sleep'', ''5'', ''&''])]
   \<and> jobs (config (snd (projr (execute_command (home_env [''/usr/bin/sleep''])
         (initial_shell ''/'') ''/usr/bin/sleep  5 &''))))
       = jobs (config (initial_shell ''/''))"
proof -
  let ?line = "''/usr/bin/sleep  5 &''"
  let ?s = "initial_shell ''/''"
  let ?e = "home_env [''/usr/bin/sleep'']"
  have h1: "line_words ?line = [''/usr/bin/sleep'', ''5''] @ [''&'']"
    by (simp add: line_words_def split_on_def parse_delims_def)
  have h2: "length [''/usr/bin/sleep'', ''5''] < MAX_ARGS - 1"
    by (simp add: MAX_ARGS_def)
  have na: "get_alias ''/usr/bin/sleep'' ?s = None"
    by (simp add: get_alias_def initial_shell_def)
  have nb: "''/usr/bin/sleep'' \<notin> set builtin_names"
    by (simp add: builtin_names_def)
  have f: "find_command ?e (os_cwd ?s) ''/usr/bin/sleep'' = Inr (Some ''/usr/bin/sleep'')"
    by (simp add: find_command_slash home_env_def example_env_def)
  have sp: "sys_spawn ?e ''/usr/bin/sleep'' [''/usr/bin/sleep'', ''5'', ''&''] = Runs [0]"
    by (simp add: home_env_def example_env_def)
  have w: "wait_loop [0] = Some 0"
    by (simp add: WIFEXITED_def)
  from background_marker_stays_in_words [OF h1 h2, of ?e ?s] na nb f sp w
  have p: "parse_command ?line = [''/usr/bin/sleep'', ''5'', ''&'']"
    and j: "\<forall>status s'. execute_command ?e ?s ?line = Inr (status, s')
              \<longrightarrow> jobs (config s') = jobs (config ?s)"
    and r: "execute_command ?e ?s ?line =
            Inr (if WIFEXITED 0 then WEXITSTATUS 0 else EXIT_FAILURE,
                 ?s\<lparr>history := history ?s @ [?line],
                    execv_calls := execv_calls ?s
                      @ [(''/usr/bin/sleep'', [''/usr/bin/sleep'', ''5''] @ [''&''])]\<rparr>)"
    by simp_all
  have r1: "\<not> isl (execute_command ?e ?s ?line)"
    unfolding r by simp
  have r2: "execv_calls (snd (projr (execute_command ?e ?s ?line)))
            = [(''/usr/bin/sleep'', [''/usr/bin/sleep'', ''5'', ''&''])]"
    unfolding r by (simp add: initial_shell_def)
  from j r have r3: "jobs (config (snd (projr (execute_command ?e ?s ?line))))
                     = jobs (config ?s)"
    by simp
  from h1 p r1 r2 r3 show ?thesis
    by (intro conjI)
qed

section \<open>An unknown command in an ordinary environment\<close>

text \<open>
  C5. Where \<open>find_command\<close> returns NULL, the dispatch of an unknown command is as the
  claim says (lemma \<open>command_not_found_127\<close>): status 127, one diagnostic, the state
  otherwise unchanged. But for a bare name \<open>find_command\<close> first builds the search list
  in a buffer that is too small as soon as \<open>HOME\<close> has more than one byte. With
  \<open>PATH=/usr/bin\<close> and \<open>HOME=/root\<close>, the line \<open>frobnicate now\<close>, whose first
  word is no alias, no built-in and executable in no directory of the search list, does
  not lead to the status 127: the run writes behind the heap buffer.
\<close>

theorem command_not_found_overflows_with_home:
  "get_alias ''frobnicate'' (initial_shell ''/'') = None
   \<and> ''frobnicate'' \<notin> set builtin_names
   \<and> list_all (\<lambda>dir. \<not> access_X_OK root_env ''/'' (full_path dir ''frobnicate''))
         (search_dirs root_env)
   \<and> isl (execute_command root_env (initial_shell ''/'') ''frobnicate now'')
   \<and> projl (execute_command root_env (initial_shell ''/'') ''frobnicate now'') = HeapOverflow"
  by code_simp

section \<open>Background jobs\<close>

text \<open>
  C3, as the claim states it, fails: the line \<open>/usr/bin/sleep 100 &\<close> starts the
  program, adds no job to the job table, and the dispatch returns only after the program
  has terminated (never, when the program does not terminate).
\<close>

theorem background_launch_adds_no_job_counterexample:
  "parse_command ''/usr/bin/sleep 100 &'' = [''/usr/bin/sleep'', ''100'', ''&'']
   \<and> \<not> isl (execute_command (home_env [''/usr/bin/sleep'']) (initial_shell ''/'')
               ''/usr/bin/sleep 100 &'')
   \<and> jobs (config (snd (projr (execute_command (home_env [''/usr/bin/sleep''])
         (initial_shell ''/'') ''/usr/bin/sleep 100 &'')))) = []
   \<and> isl (execute_command ((home_env [''/usr/bin/sleep''])\<lparr>sys_spawn := \<lambda>path args. Runs []\<rparr>)
           (initial_shell ''/'') ''/usr/bin/sleep 100 &'')
   \<and> projl (execute_command ((home_env [''/usr/bin/sleep''])\<lparr>sys_spawn := \<lambda>path args. Runs []\<rparr>)
           (initial_shell ''/'') ''/usr/bin/sleep 100 &'') = WaitsForever"
  by code_simp

text \<open>
  C3, amended. No dispatched line adds a job, and the dispatch of a program does not
  return while the program has not terminated. \<open>add_job\<close> itself, on a table with fewer
  than \<open>MAX_ARGS\<close> jobs, appends exactly one entry, marked running, with the process id
  and the command text. When a sweep runs over a table in which that entry stands at slot
  \<open>k\<close>, the process has exited with code \<open>code\<close>, every running job has a positive
  process id and no other running job has the same one, the sweep returns, the entry is
  marked as not running and carries the exit code, and the table has the same length,
  process ids and command texts as before: the sweep removes nothing.
\<close>

theorem background_job_lifecycle:
  assumes "length (jobs (config s)) < MAX_ARGS"
    and "k < length (jobs (config t))"
    and "jobs (config t) ! k =
           \<lparr>job_pid = pid, job_command = command, job_status = 0, job_running = 1\<rparr>"
    and "children t pid = ChildTerminated (code * 256)"
    and "0 \<le> code" and "code < 256"
    and "\<forall>j < length (jobs (config t)).
           job_running (jobs (config t) ! j) \<noteq> 0 \<longrightarrow> 0 < job_pid (jobs (config t) ! j)"
    and "\<forall>j < length (jobs (config t)). j \<noteq> k \<longrightarrow> job_running (jobs (config t) ! j) \<noteq> 0 \<longrightarrow>
           job_pid (jobs (config t) ! j) \<noteq> pid"
  shows "(\<forall>status s'. execute_command e s line = Inr (status, s')
            \<longrightarrow> jobs (config s') = jobs (config s))
         \<and> (\<forall>w rest p sts.
               parse_command line = w # rest \<and> get_alias w s = None
               \<and> w \<notin> set builtin_names \<and> find_command e (os_cwd s) w = Inr (Some p)
               \<and> sys_spawn e p (w # rest) = Runs sts \<and> wait_loop sts = None \<longrightarrow>
               execute_command e s line = Inl WaitsForever)
         \<and> jobs (config (add_job pid command s)) =
             jobs (config s)
             @ [\<lparr>job_pid = pid, job_command = command, job_status = 0, job_running = 1\<rparr>]
         \<and> (\<exists>t'. update_jobs t = Inr t'
               \<and> jobs (config t') ! k =
                   \<lparr>job_pid = pid, job_command = command, job_status = code,
                    job_running = 0\<rparr>
               \<and> length (jobs (config t')) = length (jobs (config t))
               \<and> map job_pid (jobs (config t')) = map job_pid (jobs (config t))
               \<and> map job_command (jobs (config t')) = map job_command (jobs (config t)))"
proof -
  have run: "job_running (jobs (config t) ! k) \<noteq> 0"
    and p: "job_pid (jobs (config t) ! k) = pid"
    using assms(3) by simp_all
  from sweep_marks [of t 0 k "code * 256"] assms(2,4,7,8) run p
  obtain t' where t': "update_jobs_loop 0 t = Inr t'"
    and k: "jobs (config t') ! k =
            (jobs (config t) ! k)\<lparr>job_running := 0, job_status := WEXITSTATUS (code * 256)\<rparr>"
    by auto
  have c: "WEXITSTATUS (code * 256) = code"
    using assms(5,6) by (rule WEXITSTATUS_exit_code(1))
  from update_jobs_keeps_entries [OF t'] t' k c assms(3)
  have sweep: "\<exists>t'. update_jobs t = Inr t'
               \<and> jobs (config t') ! k =
                   \<lparr>job_pid = pid, job_command = command, job_status = code,
                    job_running = 0\<rparr>
               \<and> length (jobs (config t')) = length (jobs (config t))
               \<and> map job_pid (jobs (config t')) = map job_pid (jobs (config t))
               \<and> map job_command (jobs (config t')) = map job_command (jobs (config t))"
    by (auto simp: update_jobs_def)
  have nojob: "\<forall>status s'. execute_command e s line = Inr (status, s')
            \<longrightarrow> jobs (config s') = jobs (config s)"
    using execute_command_jobs by blast
  have blocks: "\<forall>w rest p sts.
               parse_command line = w # rest \<and> get_alias w s = None
               \<and> w \<notin> set builtin_names \<and> find_command e (os_cwd s) w = Inr (Some p)
               \<and> sys_spawn e p (w # rest) = Runs sts \<and> wait_loop sts = None \<longrightarrow>
               execute_command e s line = Inl WaitsForever"
    using execute_command_blocks [of line _ _ s e] by blast
  from assms(1) have add: "jobs (config (add_job pid command s)) =
             jobs (config s)
             @ [\<lparr>job_pid = pid, job_command = command, job_status = 0, job_running = 1\<rparr>]"
    by (simp add: add_job_appends)
  from nojob blocks add sweep show ?thesis
    by (intro conjI)
qed

theorem background_job_lifecycle_witness:
  "isl (execute_command ((home_env [''/usr/bin/sleep''])\<lparr>sys_spawn := \<lambda>path args. Runs []\<rparr>)
          (initial_shell ''/'') ''/usr/bin/sleep 100 &'')
   \<and> projl (execute_command ((home_env [''/usr/bin/sleep''])\<lparr>sys_spawn := \<lambda>path args. Runs []\<rparr>)
          (initial_shell ''/'') ''/usr/bin/sleep 100 &'') = WaitsForever
   \<and> \<not> isl (execute_command (home_env [''/usr/bin/sleep'']) (initial_shell ''/'')
               ''/usr/bin/sleep 100 &'')
   \<and> jobs (config (snd (projr (execute_command (home_env [''/usr/bin/sleep''])
         (initial_shell ''/'') ''/usr/bin/sleep 100 &''))))
       = jobs (config (initial_shell ''/''))
   \<and> jobs (config (add_job 4711 ''sleep 5'' (initial_shell ''/''))) =
       [\<lparr>job_pid = 4711, job_command = ''sleep 5'', job_status = 0, job_running = 1\<rparr>]
   \<and> children reaped_example 4711 = ChildTerminated (3 * 256)
   \<and> \<not> isl (update_jobs reaped_example)
   \<and> jobs (config (projr (update_jobs reaped_example))) =
       [\<lparr>job_pid = 4711, job_command = ''sleep 5'', job_status = 3, job_running = 0\<rparr>]"
proof -
  let ?j = "\<lparr>job_pid = 4711, job_command = ''sleep 5'', job_status = 0, job_running = 1\<rparr>"
  let ?s = "initial_shell ''/''"
  let ?line = "''/usr/bin/sleep 100 &''"
  let ?e = "home_env [''/usr/bin/sleep'']"
  let ?hang = "?e\<lparr>sys_spawn := \<lambda>path args. Runs []\<rparr>"
  have h1: "length (jobs (config ?s)) < MAX_ARGS"
    by (simp add: initial_shell_def MAX_ARGS_def)
  have js: "jobs (config reaped_example) = [?j]"
    by (simp add: reaped_example_def add_job_def initial_shell_def MAX_ARGS_def)
  have h2: "0 < length (jobs (config reaped_example))"
    and h3: "jobs (config reaped_example) ! 0 = ?j"
    by (simp_all add: js)
  have h4: "children reaped_example 4711 = ChildTerminated (3 * 256)"
    by (simp add: reaped_example_def)
  have h5: "(0::int) \<le> 3" and h6: "(3::int) < 256"
    by simp_all
  have h7: "\<forall>j < length (jobs (config reaped_example)).
           job_running (jobs (config reaped_example) ! j) \<noteq> 0 \<longrightarrow>
           0 < job_pid (jobs (config reaped_example) ! j)"
    by (simp add: js)
  have h8: "\<forall>j < length (jobs (config reaped_example)). j \<noteq> 0 \<longrightarrow>
           job_running (jobs (config reaped_example) ! j) \<noteq> 0 \<longrightarrow>
           job_pid (jobs (config reaped_example) ! j) \<noteq> 4711"
    by (simp add: js)
  have p: "parse_command ?line = [''/usr/bin/sleep'', ''100'', ''&'']"
    by (simp add: parse_command_words line_words_def split_on_def parse_delims_def MAX_ARGS_def)
  have na: "get_alias ''/usr/bin/sleep'' ?s = None"
    by (simp add: get_alias_def initial_shell_def)
  have nb: "''/usr/bin/sleep'' \<notin> set builtin_names"
    by (simp add: builtin_names_def)
  have f: "find_command ?hang (os_cwd ?s) ''/usr/bin/sleep'' = Inr (Some ''/usr/bin/sleep'')"
    by (simp add: find_command_slash home_env_def example_env_def)
  have sp: "sys_spawn ?hang ''/usr/bin/sleep'' [''/usr/bin/sleep'', ''100'', ''&''] = Runs []"
    by simp
  have w: "wait_loop [] = None"
    by simp
  from background_job_lifecycle [OF h1 h2 h3 h4 h5 h6 h7 h8, of ?hang ?line] p na nb f sp w
  have hang: "execute_command ?hang ?s ?line = Inl WaitsForever"
    by blast
  from background_job_lifecycle [OF h1 h2 h3 h4 h5 h6 h7 h8, of ?e ?line]
  obtain t' where nojob: "\<forall>status s'. execute_command ?e ?s ?line = Inr (status, s')
                            \<longrightarrow> jobs (config s') = jobs (config ?s)"
    and a: "jobs (config (add_job 4711 ''sleep 5'' ?s)) = jobs (config ?s) @ [?j]"
    and r: "update_jobs reaped_example = Inr t'"
    and k: "jobs (config t') ! 0 = \<lparr>job_pid = 4711, job_command = ''sleep 5'',
              job_status = 3, job_running = 0\<rparr>"
    and l: "length (jobs (config t')) = length (jobs (config reaped_example))"
    by blast
  have ret: "\<not> isl (execute_command ?e ?s ?line)"
    by code_simp
  then obtain status s' where res: "execute_command ?e ?s ?line = Inr (status, s')"
    by (cases "execute_command ?e ?s ?line") auto
  with nojob have "jobs (config s') = jobs (config ?s)"
    by blast
  then have r3: "jobs (config (snd (projr (execute_command ?e ?s ?line)))) = jobs (config ?s)"
    by (simp add: res)
  from l js have "length (jobs (config t')) = 1"
    by simp
  then obtain x where "jobs (config t') = [x]"
    by (cases "jobs (config t')") auto
  with k have "jobs (config t') =
      [\<lparr>job_pid = 4711, job_command = ''sleep 5'', job_status = 3, job_running = 0\<rparr>]"
    by simp
  with r have r4: "\<not> isl (update_jobs reaped_example)"
    and r5: "jobs (config (projr (update_jobs reaped_example))) =
      [\<lparr>job_pid = 4711, job_command = ''sleep 5'', job_status = 3, job_running = 0\<rparr>]"
    by simp_all
  from hang have r1: "isl (execute_command ?hang ?s ?line)"
    and r2: "projl (execute_command ?hang ?s ?line) = WaitsForever"
    by simp_all
  from a have r6: "jobs (config (add_job 4711 ''sleep 5'' ?s)) = [?j]"
    by (simp add: initial_shell_def)
  from r1 r2 ret r3 r6 h4 r4 r5 show ?thesis
    by (intro conjI)
qed

end
